theory Spec2Isabelle
  imports Main
begin

section \<open>Data model\<close>

text \<open>
  The role enumeration of the persistence schema (\<^verbatim>\<open>UserRole\<close>), the user row with the
  fields the services read (its \<^verbatim>\<open>id\<close> is \<open>user_id\<close> here) and the two kinds of exception
  the services raise: \<^verbatim>\<open>ExpectedError(message, status)\<close> of the validation rules, and a
  plain \<^verbatim>\<open>Error(message)\<close> for everything thrown by a call to the database, the
  directory or the presence service.
\<close>

datatype UserRole = SuperAdmin | Admin | Supervisor | ContactManager | Employee

fun roleName :: "UserRole \<Rightarrow> string" where
  "roleName SuperAdmin = ''SuperAdmin''"
| "roleName Admin = ''Admin''"
| "roleName Supervisor = ''Supervisor''"
| "roleName ContactManager = ''ContactManager''"
| "roleName Employee = ''Employee''"

record User =
  user_id :: string
  azureAdObjectId :: string
  email :: string
  fullName :: string
  role :: UserRole
  roleChangedAt :: nat

datatype exn = ExpectedError string nat | Error string

text \<open>The message constants of \<^verbatim>\<open>changeUserRoleMessages.ts\<close> (string enums).\<close>

abbreviation INSUFFICIENT_PERMISSIONS :: string where
  "INSUFFICIENT_PERMISSIONS \<equiv> ''Only Admin or Supervisor may change roles''"
abbreviation SUPERVISOR_LIMITED_ACCESS :: string where
  "SUPERVISOR_LIMITED_ACCESS \<equiv> ''Supervisors may only assign Employee role''"
abbreviation CANNOT_CHANGE_OWN_ROLE :: string where
  "CANNOT_CHANGE_OWN_ROLE \<equiv> ''Cannot change own role''"
abbreviation CANNOT_CHANGE_SUPERADMIN :: string where
  "CANNOT_CHANGE_SUPERADMIN \<equiv> ''Cannot change SuperAdmin role''"
abbreviation AZURE_AD_UPDATE_FAILED :: string where
  "AZURE_AD_UPDATE_FAILED \<equiv> ''Failed to update Azure AD roles''"
abbreviation ROLE_CHANGED_SUCCESSFULLY :: string where
  "ROLE_CHANGED_SUCCESSFULLY \<equiv> ''User role changed successfully''"
abbreviation USER_DELETED_SUCCESSFULLY :: string where
  "USER_DELETED_SUCCESSFULLY \<equiv> ''User deleted successfully''"

text \<open>
  The two status enums (\<^verbatim>\<open>AzureADRetryStatus.SUCCESS\<close> and \<^verbatim>\<open>FAILED\<close> carry a prefix here, the
  names being taken), the request and the result of \<^verbatim>\<open>changeUserRoleService.ts\<close>. In the
  request, a \<open>req_newRole\<close> of \<open>None\<close> is \<^verbatim>\<open>null\<close>: remove the user. In the result,
  \<open>previousRole = None\<close> is \<^verbatim>\<open>undefined\<close> (there was no local user) and \<open>newRole = None\<close>
  is \<^verbatim>\<open>null\<close>.
\<close>

datatype ChangeUserRoleStatus = SUCCESS | FAILED | ROLLBACK_REQUIRED

datatype AzureADRetryStatus = RETRY_SUCCESS | RETRY_FAILED | MAX_RETRIES_EXCEEDED

record ChangeUserRoleRequest =
  req_userEmail :: string
  req_newRole :: "UserRole option"

record ChangeUserRoleResult =
  message :: string
  status :: ChangeUserRoleStatus
  userEmail :: string
  previousRole :: "UserRole option"
  newRole :: "UserRole option"
  azureADUpdated :: bool
  rollbackRequired :: bool

section \<open>Validation rules (\<^verbatim>\<open>ChangeUserRoleValidationRules\<close>)\<close>

text \<open>
  The five rules of \<^verbatim>\<open>changeUserRoleValidationRules.ts\<close>. Each rule either returns or
  throws; the model returns \<open>Inr ()\<close> or \<open>Inl\<close> the exception. A requested role of
  \<open>None\<close> is the source's \<^verbatim>\<open>null\<close>. The comparison of the two emails is the source's
  \<^verbatim>\<open>===\<close> on strings.
\<close>

definition validateNotSelfChange :: "User \<Rightarrow> string \<Rightarrow> exn + unit" where
  "validateNotSelfChange currentUser targetEmail =
     (if email currentUser = targetEmail
      then Inl (ExpectedError CANNOT_CHANGE_OWN_ROLE 400) else Inr ())"

definition validateNotSuperAdminChange :: "User \<Rightarrow> exn + unit" where
  "validateNotSuperAdminChange targetUser =
     (if role targetUser = SuperAdmin
      then Inl (ExpectedError CANNOT_CHANGE_SUPERADMIN 400) else Inr ())"

definition validateSupervisorRoleAssignment :: "UserRole \<Rightarrow> UserRole option \<Rightarrow> exn + unit" where
  "validateSupervisorRoleAssignment callerRole newRole' =
     (if callerRole = Supervisor \<and> newRole' \<noteq> Some Employee
      then Inl (ExpectedError SUPERVISOR_LIMITED_ACCESS 403) else Inr ())"

definition validateCallerPermissions ::
  "UserRole \<Rightarrow> UserRole \<Rightarrow> UserRole option \<Rightarrow> exn + unit" where
  "validateCallerPermissions callerRole targetRole newRole' =
     (if callerRole = SuperAdmin then Inr ()
      else if callerRole = Admin then
        (if targetRole = SuperAdmin
         then Inl (ExpectedError CANNOT_CHANGE_SUPERADMIN 403) else Inr ())
      else if callerRole = Supervisor then
        (if newRole' \<noteq> Some Employee
         then Inl (ExpectedError SUPERVISOR_LIMITED_ACCESS 403) else Inr ())
      else Inl (ExpectedError INSUFFICIENT_PERMISSIONS 403))"

definition validateRoleChange :: "UserRole \<Rightarrow> UserRole option \<Rightarrow> exn + unit" where
  "validateRoleChange currentRole newRole' =
     (if Some currentRole = newRole'
      then Inl (ExpectedError ''User already has this role'' 400)
      else if currentRole = SuperAdmin
      then Inl (ExpectedError CANNOT_CHANGE_SUPERADMIN 400) else Inr ())"

text \<open>Sequencing of two statements that may throw: the second runs only if the first returns.\<close>

definition andThen :: "exn + unit \<Rightarrow> exn + unit \<Rightarrow> exn + unit" where
  "andThen a b = (case a of Inl e \<Rightarrow> Inl e | Inr _ \<Rightarrow> b)"

section \<open>The world outside the engine\<close>

text \<open>
  A directory role grant (an \<^verbatim>\<open>appRoleAssignment\<close> of Microsoft Graph) and one page of
  a list response. A missing \<^verbatim>\<open>id\<close>, \<^verbatim>\<open>principalId\<close> or \<^verbatim>\<open>@odata.nextLink\<close> is the empty
  string (both are falsy in the source); an \<^verbatim>\<open>appRoleId\<close> of \<open>None\<close> is \<^verbatim>\<open>undefined\<close>.
\<close>

record assignment =
  aid :: string
  principalId :: string
  appRoleId :: "string option"

record listResponse =
  resp_status :: nat
  resp_value :: "assignment list"
  resp_nextLink :: string

text \<open>Audit entries as passed to \<^verbatim>\<open>logAudit\<close>, and the row that reaches the database.\<close>

datatype AuditAction =
  CREATE | UPDATE | DELETE | ROLE_CHANGE | SUPERVISOR_CHANGE | STREAM_START | STREAM_STOP

datatype AuditEntity = USER | COMMAND | RECORDING | SNAPSHOT | CHAT | CONTACT_MANAGER

datatype 'a nullable = Undefined | Null | Value 'a

record AuditEntry =
  entity :: AuditEntity
  entityId :: string
  action :: AuditAction
  changedById :: string
  dataBefore :: "User nullable"
  dataAfter :: "User nullable"

datatype jsonColumn = Unset | JsonNull | Json User

record AuditLog =
  log_entity :: AuditEntity
  log_entityId :: string
  log_action :: AuditAction
  log_changedBy :: string
  log_dataBefore :: jsonColumn
  log_dataAfter :: jsonColumn

text \<open>
  The state outside the process: the rows of the local store by lower-cased email, the
  rows of the audit log, the grants the directory holds, the users the presence service
  has marked offline, and a clock in milliseconds that the back-off sleeps advance.
  \<open>dbWrites\<close> and \<open>posts\<close> count the writes to the local store and the assignment
  requests issued so far. Every call that leaves the process is also recorded, in
  order, in the trace: reads and writes of the local store, requests to the directory,
  the audit write, the presence call and the sleeps.
\<close>

datatype event =
    StoreRead string
  | StoreUpsert string UserRole
  | StoreDelete string
  | DirectoryLookup string
  | TokenRequest
  | HttpGet string
  | HttpDelete string
  | HttpPost string string "string option"
  | Sleep nat
  | AuditWrite AuditAction
  | PresenceOffline string

record world =
  users :: "string \<rightharpoonup> User"
  auditLog :: "AuditLog list"
  grants :: "assignment list"
  offline :: "string list"
  now :: nat
  dbWrites :: nat
  posts :: nat
  trace :: "event list"

text \<open>
  What the outside answers, and which calls it rejects. The four \<^verbatim>\<open>process.env\<close> entries
  may be undefined. \<open>directoryUser\<close> is the object id the directory finds for an email,
  \<open>graphToken\<close> and \<open>servicePrincipal\<close> the answers to the token and service-principal
  requests (\<open>None\<close>: the request fails). A list request is answered per URL (\<open>None\<close>:
  the request is rejected); a delete is rejected per URL; the \<open>n\<close>-th assignment
  request and the \<open>n\<close>-th write of the local store (counted from \<open>0\<close> by \<open>posts\<close> and
  \<open>dbWrites\<close>) are rejected when \<open>assignFails n\<close>, \<open>dbWriteFails n\<close>; the read of the local
  store, the audit write and the presence call are rejected when their flag is set.
  \<open>newAssignmentId\<close> and \<open>newUserId\<close> are the ids the directory and the database give to
  what they create.
\<close>

record env =
  SUPERVISORS_GROUP_ID :: "string option"
  ADMINS_GROUP_ID :: "string option"
  EMPLOYEES_GROUP_ID :: "string option"
  CONTACT_MANAGER_GROUP_ID :: "string option"
  directoryUser :: "string \<Rightarrow> string option"
  graphToken :: "string option"
  servicePrincipal :: "string option"
  displayNameOf :: "string \<Rightarrow> string"
  httpGet :: "string \<Rightarrow> listResponse option"
  httpDeleteFails :: "string \<Rightarrow> bool"
  assignFails :: "nat \<Rightarrow> bool"
  newAssignmentId :: "nat \<Rightarrow> string"
  dbReadFails :: bool
  dbWriteFails :: "nat \<Rightarrow> bool"
  newUserId :: "string \<Rightarrow> string"
  auditFails :: bool
  presenceFails :: bool

definition logEvent :: "event \<Rightarrow> world \<Rightarrow> world" where
  "logEvent ev w = w\<lparr>trace := trace w @ [ev]\<rparr>"

section \<open>Directory client (\<^verbatim>\<open>graphService.ts\<close>, \<^verbatim>\<open>userSyncService.ts\<close>)\<close>

text \<open>
  Of the four look-ups that \<^verbatim>\<open>changeUserRole\<close> makes before it changes anything, the model
  keeps the outcome, which the environment supplies, and the place in the trace.
  \<^verbatim>\<open>validateUserExists\<close> turns every failure of its two look-ups into the same error;
  \<^verbatim>\<open>getGraphToken\<close> and \<^verbatim>\<open>getServicePrincipalObjectId\<close> throw an \<^verbatim>\<open>Error\<close> when their request
  fails or its answer is unusable; \<^verbatim>\<open>getUserDisplayName\<close> swallows every failure and
  returns the empty string then, so it cannot throw.
\<close>

definition validateUserExists :: "env \<Rightarrow> world \<Rightarrow> string \<Rightarrow> (exn + string) \<times> world" where
  "validateUserExists env w userEmail' =
     (let w1 = logEvent (DirectoryLookup userEmail') w in
      case directoryUser env userEmail' of
        None \<Rightarrow> (Inl (Error (''User '' @ userEmail' @ '' not found in Azure AD'')), w1)
      | Some adId \<Rightarrow> (Inr adId, w1))"

definition getGraphToken :: "env \<Rightarrow> world \<Rightarrow> (exn + string) \<times> world" where
  "getGraphToken env w =
     (case graphToken env of
        None \<Rightarrow> Inl (Error ''Failed to acquire Graph token'')
      | Some token \<Rightarrow> Inr token,
      logEvent TokenRequest w)"

definition getServicePrincipalObjectId ::
  "env \<Rightarrow> world \<Rightarrow> string \<Rightarrow> (exn + string) \<times> world" where
  "getServicePrincipalObjectId env w token =
     (case servicePrincipal env of
        None \<Rightarrow> Inl (Error ''Error fetching servicePrincipal'')
      | Some spId \<Rightarrow> Inr spId,
      logEvent (HttpGet ''https://graph.microsoft.com/v1.0/servicePrincipals'') w)"

definition getUserDisplayName :: "env \<Rightarrow> world \<Rightarrow> string \<Rightarrow> string \<Rightarrow> string \<times> world" where
  "getUserDisplayName env w userAdId token =
     (displayNameOf env userAdId,
      logEvent (HttpGet (''https://graph.microsoft.com/v1.0/users/'' @ userAdId)) w)"

definition appRoleAssignedToUrl :: "string \<Rightarrow> string" where
  "appRoleAssignedToUrl spObjectId =
     ''https://graph.microsoft.com/v1.0/servicePrincipals/'' @ spObjectId @ ''/appRoleAssignedTo''"

definition assignAppRoleToPrincipal ::
  "env \<Rightarrow> world \<Rightarrow> string \<Rightarrow> string \<Rightarrow> string \<Rightarrow> string option \<Rightarrow> (exn + unit) \<times> world" where
  "assignAppRoleToPrincipal env w token spObjectId principalId' roleId =
     (let w1 = (logEvent (HttpPost (appRoleAssignedToUrl spObjectId) principalId' roleId) w)
                 \<lparr>posts := Suc (posts w)\<rparr>
      in if assignFails env (posts w) then (Inl (Error ''Request failed''), w1)
         else (Inr (),
               w1\<lparr>grants := grants w @
                  [\<lparr>aid = newAssignmentId env (posts w), principalId = principalId',
                    appRoleId = roleId\<rparr>]\<rparr>))"

text \<open>
  \<^verbatim>\<open>removeAllAppRolesFromPrincipalOnSp\<close>: the inner \<^verbatim>\<open>for\<close> loop over one page, then the
  \<^verbatim>\<open>while (url)\<close> loop over the pages. The outer loop ends only when a page comes without
  a next link, so it is a partial function: \<open>None\<close> means that it never returns.
\<close>

fun removeAllAppRolesFromPrincipalOnSp_page ::
  "env \<Rightarrow> string \<Rightarrow> string \<Rightarrow> assignment list \<Rightarrow> nat \<Rightarrow> world \<Rightarrow> (exn + nat) \<times> world" where
  "removeAllAppRolesFromPrincipalOnSp_page env base principalId' [] removed w = (Inr removed, w)"
| "removeAllAppRolesFromPrincipalOnSp_page env base principalId' (a # page) removed w =
     (if aid a = [] then removeAllAppRolesFromPrincipalOnSp_page env base principalId' page removed w
      else if principalId a \<noteq> principalId'
      then removeAllAppRolesFromPrincipalOnSp_page env base principalId' page removed w
      else let delUrl = base @ ''/'' @ aid a; w1 = logEvent (HttpDelete delUrl) w in
        if httpDeleteFails env delUrl
        then (Inl (Error (''Failed to delete appRoleAssignedTo '' @ aid a)), w1)
        else removeAllAppRolesFromPrincipalOnSp_page env base principalId' page (Suc removed)
               (w1\<lparr>grants := filter (\<lambda>g. aid g \<noteq> aid a) (grants w)\<rparr>))"

partial_function (option) removeAllAppRolesFromPrincipalOnSp_loop ::
  "env \<Rightarrow> string \<Rightarrow> string \<Rightarrow> string \<Rightarrow> nat \<Rightarrow> world \<Rightarrow> ((exn + nat) \<times> world) option" where
  "removeAllAppRolesFromPrincipalOnSp_loop env base principalId' url removed w =
     (if url = [] then Some (Inr removed, w)
      else let w1 = logEvent (HttpGet url) w in
        case httpGet env url of
          None \<Rightarrow> Some (Inl (Error ''Request failed''), w1)
        | Some resp \<Rightarrow>
            if resp_status resp \<noteq> 200
            then Some (Inl (Error ''Failed to list appRoleAssignedTo''), w1)
            else (case removeAllAppRolesFromPrincipalOnSp_page env base principalId'
                         (resp_value resp) removed w1 of
                    (Inl e, w2) \<Rightarrow> Some (Inl e, w2)
                  | (Inr removed', w2) \<Rightarrow>
                      removeAllAppRolesFromPrincipalOnSp_loop env base principalId'
                        (resp_nextLink resp) removed' w2))"

declare removeAllAppRolesFromPrincipalOnSp_loop.simps [code]

definition removeAllAppRolesFromPrincipalOnSp ::
  "env \<Rightarrow> world \<Rightarrow> string \<Rightarrow> string \<Rightarrow> string \<Rightarrow> ((exn + nat) \<times> world) option" where
  "removeAllAppRolesFromPrincipalOnSp env w token spObjectId principalId' =
     removeAllAppRolesFromPrincipalOnSp_loop env (appRoleAssignedToUrl spObjectId) principalId'
       (appRoleAssignedToUrl spObjectId @ ''?$top=100'') 0 w"

text \<open>
  \<^verbatim>\<open>fetchAppRoleMemberIds\<close>: the same paging loop, collecting the principals that hold one
  app role.
\<close>

definition fetchAppRoleMemberIds_page ::
  "string \<Rightarrow> assignment list \<Rightarrow> string set \<Rightarrow> string set" where
  "fetchAppRoleMemberIds_page roleId page memberIds =
     memberIds \<union> set (map principalId
       (filter (\<lambda>a. appRoleId a = Some roleId \<and> principalId a \<noteq> []) page))"

partial_function (option) fetchAppRoleMemberIds_loop ::
  "env \<Rightarrow> string \<Rightarrow> string \<Rightarrow> string set \<Rightarrow> world \<Rightarrow> ((exn + string set) \<times> world) option" where
  "fetchAppRoleMemberIds_loop env roleId url memberIds w =
     (if url = [] then Some (Inr memberIds, w)
      else let w1 = logEvent (HttpGet url) w in
        case httpGet env url of
          None \<Rightarrow> Some (Inl (Error ''Request failed''), w1)
        | Some resp \<Rightarrow>
            if resp_status resp \<noteq> 200 then Some (Inl (Error ''Graph failed''), w1)
            else fetchAppRoleMemberIds_loop env roleId (resp_nextLink resp)
                   (fetchAppRoleMemberIds_page roleId (resp_value resp) memberIds) w1)"

declare fetchAppRoleMemberIds_loop.simps [code]

definition fetchAppRoleMemberIds ::
  "env \<Rightarrow> world \<Rightarrow> string \<Rightarrow> string \<Rightarrow> string \<Rightarrow> ((exn + string set) \<times> world) option" where
  "fetchAppRoleMemberIds env w token servicePrincipalId roleId =
     (if servicePrincipalId = [] then Some (Inl (Error ''servicePrincipalId is required''), w)
      else if roleId = [] then Some (Inl (Error ''appRoleId is required''), w)
      else fetchAppRoleMemberIds_loop env roleId
             (appRoleAssignedToUrl servicePrincipalId @ ''?$top=100'') {} w)"

text \<open>
  \<^verbatim>\<open>UserRoleManagementService.removeAllAppRolesFromUser\<close>: one list request on the user's
  side, then one delete per assignment of the answer.
\<close>

fun removeAllAppRolesFromUser_deletes ::
  "env \<Rightarrow> string \<Rightarrow> assignment list \<Rightarrow> world \<Rightarrow> (exn + unit) \<times> world" where
  "removeAllAppRolesFromUser_deletes env userUrl [] w = (Inr (), w)"
| "removeAllAppRolesFromUser_deletes env userUrl (a # assignments) w =
     (let deleteUrl = userUrl @ ''/'' @ aid a; w1 = logEvent (HttpDelete deleteUrl) w in
      if httpDeleteFails env deleteUrl then (Inl (Error ''Request failed''), w1)
      else removeAllAppRolesFromUser_deletes env userUrl assignments
             (w1\<lparr>grants := filter (\<lambda>g. aid g \<noteq> aid a) (grants w)\<rparr>))"

definition removeAllAppRolesFromUser ::
  "env \<Rightarrow> world \<Rightarrow> string \<Rightarrow> string \<Rightarrow> string \<Rightarrow> (exn + unit) \<times> world" where
  "removeAllAppRolesFromUser env w token servicePrincipalObjectId userObjectId =
     (let userUrl = ''https://graph.microsoft.com/v1.0/users/'' @ userObjectId
                      @ ''/appRoleAssignments'';
          listUrl = userUrl @ ''?$filter=resourceId eq '' @ servicePrincipalObjectId;
          w1 = logEvent (HttpGet listUrl) w
      in case httpGet env listUrl of
           None \<Rightarrow> (Inl (Error ''Request failed''), w1)
         | Some resp \<Rightarrow> removeAllAppRolesFromUser_deletes env userUrl (resp_value resp) w1)"

section \<open>Local role store, audit log and presence\<close>

text \<open>
  Lower-casing of ASCII letters, as \<^verbatim>\<open>String.prototype.toLowerCase\<close> does on them.
\<close>

definition toLowerChar :: "char \<Rightarrow> char" where
  "toLowerChar c =
     (case map_of (zip ''ABCDEFGHIJKLMNOPQRSTUVWXYZ'' ''abcdefghijklmnopqrstuvwxyz'') c of
        None \<Rightarrow> c
      | Some l \<Rightarrow> l)"

definition toLowerCase :: "string \<Rightarrow> string" where
  "toLowerCase s = map toLowerChar s"

text \<open>
  Modelled from the spec: \<^verbatim>\<open>getUserByEmail\<close> of \<^verbatim>\<open>userService.ts\<close>, which is not among the
  sources. The spec's Local Role Store has \<^verbatim>\<open>findByEmail(email) -> Principal | None\<close>, with
  the email unique and case-insensitive: the store is keyed by the lower-cased email, as
  the repositories of the sources look users up. A soft-deleted principal counts as
  absent, so the store holds the live principals only. The read is a database call and
  may be rejected.
\<close>

definition getUserByEmail :: "env \<Rightarrow> world \<Rightarrow> string \<Rightarrow> (exn + User option) \<times> world" where
  "getUserByEmail env w email' =
     (let w1 = logEvent (StoreRead email') w in
      if dbReadFails env then (Inl (Error ''database read failed''), w1)
      else (Inr (users w (toLowerCase email')), w1))"

text \<open>
  Modelled from the spec: \<^verbatim>\<open>upsertUserRole\<close> of \<^verbatim>\<open>userService.ts\<close>, which is not among the
  sources. The spec's \<^verbatim>\<open>upsertRole(email, directoryId, displayName, role) -> Principal\<close>
  creates the principal if absent, else updates \<^verbatim>\<open>role\<close> and \<^verbatim>\<open>roleChangedAt\<close>; calling it
  twice with the same arguments gives the same end state. The write is a database call
  and may be rejected; a rejected write changes nothing.
\<close>

definition upsertUserRole ::
  "env \<Rightarrow> world \<Rightarrow> string \<Rightarrow> string \<Rightarrow> string \<Rightarrow> UserRole \<Rightarrow> (exn + User) \<times> world" where
  "upsertUserRole env w email' adId fullName' role' =
     (let key = toLowerCase email';
          w1 = (logEvent (StoreUpsert email' role') w)\<lparr>dbWrites := Suc (dbWrites w)\<rparr>
      in if dbWriteFails env (dbWrites w) then (Inl (Error ''database write failed''), w1)
         else let u = (case users w key of
                         None \<Rightarrow> \<lparr>user_id = newUserId env key, azureAdObjectId = adId,
                                  email = key, fullName = fullName', role = role',
                                  roleChangedAt = now w\<rparr>
                       | Some old \<Rightarrow> old\<lparr>role := role', roleChangedAt := now w\<rparr>)
              in (Inr u, w1\<lparr>users := (users w)(key \<mapsto> u)\<rparr>))"

text \<open>
  Modelled from the spec: \<^verbatim>\<open>deleteUserByEmail\<close> of \<^verbatim>\<open>userService.ts\<close>, which is not among
  the sources. The spec's \<^verbatim>\<open>removePrincipal(email) -> void\<close> is idempotent, and removing an
  absent principal is not an error. The write is a database call and may be rejected; a
  rejected write changes nothing.
\<close>

definition deleteUserByEmail :: "env \<Rightarrow> world \<Rightarrow> string \<Rightarrow> (exn + unit) \<times> world" where
  "deleteUserByEmail env w email' =
     (let w1 = (logEvent (StoreDelete email') w)\<lparr>dbWrites := Suc (dbWrites w)\<rparr>
      in if dbWriteFails env (dbWrites w) then (Inl (Error ''database write failed''), w1)
         else (Inr (), w1\<lparr>users := (users w)(toLowerCase email' := None)\<rparr>))"

text \<open>
  Modelled from the spec: \<^verbatim>\<open>setUserOffline\<close> of \<^verbatim>\<open>presenceService.ts\<close>, which is not among
  the sources. The spec's Presence Invalidation notifies presence tracking that the
  user's session is to be treated as stale; the call may be rejected.
\<close>

definition setUserOffline :: "env \<Rightarrow> world \<Rightarrow> string \<Rightarrow> (exn + unit) \<times> world" where
  "setUserOffline env w email' =
     (let w1 = logEvent (PresenceOffline email') w in
      if presenceFails env then (Inl (Error ''presence update failed''), w1)
      else (Inr (), w1\<lparr>offline := offline w @ [toLowerCase email']\<rparr>))"

text \<open>
  \<^verbatim>\<open>logAudit\<close> (\<^verbatim>\<open>auditService.ts\<close>): a JSON field is part of the row only if the entry
  defines it, a \<^verbatim>\<open>null\<close> is written as JSON null; then the row is created, and a
  rejection of the create is not caught.
\<close>

definition jsonField :: "User nullable \<Rightarrow> jsonColumn" where
  "jsonField x = (case x of Undefined \<Rightarrow> Unset | Null \<Rightarrow> JsonNull | Value v \<Rightarrow> Json v)"

definition logAudit :: "env \<Rightarrow> world \<Rightarrow> AuditEntry \<Rightarrow> (exn + unit) \<times> world" where
  "logAudit env w entry =
     (let data = \<lparr>log_entity = entity entry, log_entityId = entityId entry,
                  log_action = action entry, log_changedBy = changedById entry,
                  log_dataBefore = jsonField (dataBefore entry),
                  log_dataAfter = jsonField (dataAfter entry)\<rparr>;
          w1 = logEvent (AuditWrite (action entry)) w
      in if auditFails env then (Inl (Error ''audit write failed''), w1)
         else (Inr (), w1\<lparr>auditLog := auditLog w @ [data]\<rparr>))"

section \<open>The engine (\<^verbatim>\<open>ChangeUserRoleService\<close>)\<close>

text \<open>
  \<^verbatim>\<open>updateAzureADWithRetry\<close>. The role map is a record with four computed keys; a role that
  is no key of it, or whose environment variable is not set, looks up to \<^verbatim>\<open>undefined\<close>.
\<close>

definition roleIdMap :: "env \<Rightarrow> (string \<times> string option) list" where
  "roleIdMap env =
     [(roleName Supervisor, SUPERVISORS_GROUP_ID env),
      (roleName Admin, ADMINS_GROUP_ID env),
      (roleName Employee, EMPLOYEES_GROUP_ID env),
      (roleName ContactManager, CONTACT_MANAGER_GROUP_ID env)]"

definition roleIdOf :: "env \<Rightarrow> UserRole \<Rightarrow> string option" where
  "roleIdOf env role' =
     (case map_of (roleIdMap env) (roleName role') of None \<Rightarrow> None | Some v \<Rightarrow> v)"

definition sleep :: "nat \<Rightarrow> world \<Rightarrow> world" where
  "sleep ms w = (logEvent (Sleep ms) w)\<lparr>now := now w + ms\<rparr>"

function updateAzureADWithRetry_loop ::
  "env \<Rightarrow> string \<Rightarrow> string \<Rightarrow> string \<Rightarrow> string option \<Rightarrow> nat \<Rightarrow> nat \<Rightarrow> world
     \<Rightarrow> AzureADRetryStatus \<times> world" where
  "updateAzureADWithRetry_loop env token spId targetAdId roleId maxRetries attempt w =
     (if attempt \<le> maxRetries then
        (case assignAppRoleToPrincipal env w token spId targetAdId roleId of
           (Inr _, w1) \<Rightarrow> (RETRY_SUCCESS, w1)
         | (Inl _, w1) \<Rightarrow>
             if attempt = maxRetries then (MAX_RETRIES_EXCEEDED, w1)
             else updateAzureADWithRetry_loop env token spId targetAdId roleId maxRetries
                    (Suc attempt) (sleep (1000 * attempt) w1))
      else (MAX_RETRIES_EXCEEDED, w))"
  by pat_completeness auto
termination
  by (relation "measure (\<lambda>(env, token, spId, targetAdId, roleId, maxRetries, attempt, w).
        Suc maxRetries - attempt)") auto

definition updateAzureADWithRetry ::
  "env \<Rightarrow> world \<Rightarrow> string \<Rightarrow> string \<Rightarrow> string \<Rightarrow> UserRole \<Rightarrow> nat \<Rightarrow> AzureADRetryStatus \<times> world" where
  "updateAzureADWithRetry env w token spId targetAdId newRole' maxRetries =
     updateAzureADWithRetry_loop env token spId targetAdId (roleIdOf env newRole') maxRetries 1 w"

text \<open>
  \<^verbatim>\<open>changeUserRole\<close>, in three parts: step 6 (the removal of the user), steps 7 to 11 (the
  update of the database, the directory assignment with its rollback, the audit entry
  and the presence call), and steps 1 to 5 before them.
\<close>

definition changeUserRole_delete ::
  "env \<Rightarrow> world \<Rightarrow> string \<Rightarrow> User option \<Rightarrow> User \<Rightarrow> (exn + ChangeUserRoleResult) \<times> world" where
  "changeUserRole_delete env w userEmail' targetUser currentUser =
     (let result = \<lparr>message = USER_DELETED_SUCCESSFULLY, status = SUCCESS,
                    userEmail = userEmail', previousRole = map_option role targetUser,
                    newRole = None, azureADUpdated = True, rollbackRequired = False\<rparr>
      in case targetUser of
           None \<Rightarrow> (Inr result, w)
         | Some t \<Rightarrow>
             (case deleteUserByEmail env w userEmail' of
                (Inl e, w1) \<Rightarrow> (Inl e, w1)
              | (Inr _, w1) \<Rightarrow>
                  (case logAudit env w1
                          \<lparr>entity = USER, entityId = user_id t, action = DELETE,
                           changedById = user_id currentUser, dataBefore = Value t,
                           dataAfter = Undefined\<rparr> of
                     (Inl e, w2) \<Rightarrow> (Inl e, w2)
                   | (Inr _, w2) \<Rightarrow> (Inr result, w2))))"

definition changeUserRole_update ::
  "env \<Rightarrow> world \<Rightarrow> string \<Rightarrow> UserRole \<Rightarrow> User option \<Rightarrow> User \<Rightarrow> string \<Rightarrow> string \<Rightarrow> string
     \<Rightarrow> (exn + ChangeUserRoleResult) \<times> world" where
  "changeUserRole_update env w userEmail' newRole' targetUser currentUser graphToken' spId
       targetAdId =
     (case getUserDisplayName env w targetAdId graphToken' of (displayName, w1) \<Rightarrow>
     (case upsertUserRole env w1 userEmail' targetAdId displayName newRole' of
        (Inl e, w2) \<Rightarrow> (Inl e, w2)
      | (Inr updatedUser, w2) \<Rightarrow>
     (case updateAzureADWithRetry env w2 graphToken' spId targetAdId newRole' 2 of
        (azureADResult, w3) \<Rightarrow>
      if azureADResult = MAX_RETRIES_EXCEEDED then
        (let result = \<lparr>message = AZURE_AD_UPDATE_FAILED, status = ROLLBACK_REQUIRED,
                       userEmail = userEmail', previousRole = map_option role targetUser,
                       newRole = Some newRole', azureADUpdated = False,
                       rollbackRequired = True\<rparr>
         in case targetUser of
              Some t \<Rightarrow>
                (case upsertUserRole env w3 userEmail' targetAdId displayName (role t) of
                   (Inl e, w4) \<Rightarrow> (Inl e, w4)
                 | (Inr _, w4) \<Rightarrow> (Inr result, w4))
            | None \<Rightarrow>
                (case deleteUserByEmail env w3 userEmail' of
                   (Inl e, w4) \<Rightarrow> (Inl e, w4)
                 | (Inr _, w4) \<Rightarrow> (Inr result, w4)))
      else
        (case logAudit env w3
                \<lparr>entity = USER, entityId = user_id updatedUser, action = ROLE_CHANGE,
                 changedById = user_id currentUser,
                 dataBefore = (case targetUser of None \<Rightarrow> Null | Some t \<Rightarrow> Value t),
                 dataAfter = Value updatedUser\<rparr> of
           (Inl e, w4) \<Rightarrow> (Inl e, w4)
         | (Inr _, w4) \<Rightarrow>
             (case setUserOffline env w4 userEmail' of
                (Inl e, w5) \<Rightarrow> (Inl e, w5)
              | (Inr _, w5) \<Rightarrow>
                  (Inr \<lparr>message = ROLE_CHANGED_SUCCESSFULLY, status = SUCCESS,
                        userEmail = userEmail', previousRole = map_option role targetUser,
                        newRole = Some newRole', azureADUpdated = True,
                        rollbackRequired = False\<rparr>, w5))))))"

definition validateTargetUser :: "User \<Rightarrow> User option \<Rightarrow> UserRole option \<Rightarrow> exn + unit" where
  "validateTargetUser currentUser targetUser newRole' =
     (case targetUser of
        None \<Rightarrow> Inr ()
      | Some t \<Rightarrow>
          andThen (validateNotSuperAdminChange t)
            (andThen (validateCallerPermissions (role currentUser) (role t) newRole')
               (validateRoleChange (role t) newRole')))"

definition changeUserRole ::
  "env \<Rightarrow> world \<Rightarrow> ChangeUserRoleRequest \<Rightarrow> User
     \<Rightarrow> ((exn + ChangeUserRoleResult) \<times> world) option" where
  "changeUserRole env w request currentUser =
     (let userEmail' = req_userEmail request; newRole' = req_newRole request in
      case andThen (validateNotSelfChange currentUser userEmail')
             (validateSupervisorRoleAssignment (role currentUser) newRole') of
        Inl e \<Rightarrow> Some (Inl e, w)
      | Inr _ \<Rightarrow>
     (case getUserByEmail env w userEmail' of
        (Inl e, w1) \<Rightarrow> Some (Inl e, w1)
      | (Inr targetUser, w1) \<Rightarrow>
     (case validateTargetUser currentUser targetUser newRole' of
        Inl e \<Rightarrow> Some (Inl e, w1)
      | Inr _ \<Rightarrow>
     (case validateUserExists env w1 userEmail' of
        (Inl e, w2) \<Rightarrow> Some (Inl e, w2)
      | (Inr targetAdId, w2) \<Rightarrow>
     (case getGraphToken env w2 of
        (Inl e, w3) \<Rightarrow> Some (Inl e, w3)
      | (Inr graphToken', w3) \<Rightarrow>
     (case getServicePrincipalObjectId env w3 graphToken' of
        (Inl e, w4) \<Rightarrow> Some (Inl e, w4)
      | (Inr spId, w4) \<Rightarrow>
     (case removeAllAppRolesFromPrincipalOnSp env w4 graphToken' spId targetAdId of
        None \<Rightarrow> None
      | Some (Inl e, w5) \<Rightarrow> Some (Inl e, w5)
      | Some (Inr removed, w5) \<Rightarrow>
          (case newRole' of
             None \<Rightarrow> Some (changeUserRole_delete env w5 userEmail' targetUser currentUser)
           | Some r \<Rightarrow>
               Some (changeUserRole_update env w5 userEmail' r targetUser currentUser
                       graphToken' spId targetAdId)))))))))"


section \<open>Auxiliary notions for the statements\<close>

text \<open>
  \<^verbatim>\<open>UserManagementValidationRules.validateNotSelfCreation\<close>, the self check of the
  neighbouring user-management services: it lower-cases both emails before comparing.
\<close>

definition validateNotSelfCreation :: "string \<Rightarrow> string \<Rightarrow> exn + unit" where
  "validateNotSelfCreation callerEmail targetEmail =
     (if toLowerCase callerEmail = toLowerCase targetEmail
      then Inl (ExpectedError ''Cannot create yourself'' 400) else Inr ())"

text \<open>
  What a step that only talks to the directory's list and delete endpoints may change:
  grants may disappear, the trace grows, and nothing else moves.
\<close>

definition onlyGrantsRemoved :: "world \<Rightarrow> world \<Rightarrow> bool" where
  "onlyGrantsRemoved w w' \<longleftrightarrow>
     users w' = users w \<and> auditLog w' = auditLog w \<and> offline w' = offline w \<and>
     now w' = now w \<and> dbWrites w' = dbWrites w \<and> posts w' = posts w \<and>
     set (grants w') \<subseteq> set (grants w)"

text \<open>
  The world as \<^verbatim>\<open>changeUserRole\<close> hands it to the clearing of the grants (step 5): the
  look-ups of steps 2 to 4 have been traced, nothing has been written.
\<close>

definition resolved :: "string \<Rightarrow> world \<Rightarrow> world" where
  "resolved userEmail' w =
     w\<lparr>trace := trace w @
         [StoreRead userEmail', DirectoryLookup userEmail', TokenRequest,
          HttpGet ''https://graph.microsoft.com/v1.0/servicePrincipals'']\<rparr>"

text \<open>
  The validation of steps 1 and 2 lets the request through; the look-ups of steps 3
  and 4 find the account, a token and the service principal.
\<close>

definition policyPermits :: "User \<Rightarrow> ChangeUserRoleRequest \<Rightarrow> User option \<Rightarrow> bool" where
  "policyPermits currentUser request targetUser \<longleftrightarrow>
     validateNotSelfChange currentUser (req_userEmail request) = Inr () \<and>
     validateSupervisorRoleAssignment (role currentUser) (req_newRole request) = Inr () \<and>
     validateTargetUser currentUser targetUser (req_newRole request) = Inr ()"

definition directoryResolves :: "env \<Rightarrow> string \<Rightarrow> string \<Rightarrow> string \<Rightarrow> string \<Rightarrow> bool" where
  "directoryResolves env userEmail' adId token spId \<longleftrightarrow>
     directoryUser env userEmail' = Some adId \<and> graphToken env = Some token \<and>
     servicePrincipal env = Some spId"

text \<open>The results that \<^verbatim>\<open>changeUserRole\<close> returns for a role change.\<close>

definition rollbackResult :: "string \<Rightarrow> UserRole option \<Rightarrow> UserRole \<Rightarrow> ChangeUserRoleResult" where
  "rollbackResult userEmail' previous attempted =
     \<lparr>message = AZURE_AD_UPDATE_FAILED, status = ROLLBACK_REQUIRED, userEmail = userEmail',
      previousRole = previous, newRole = Some attempted, azureADUpdated = False,
      rollbackRequired = True\<rparr>"

definition successResult :: "string \<Rightarrow> UserRole option \<Rightarrow> UserRole \<Rightarrow> ChangeUserRoleResult" where
  "successResult userEmail' previous new =
     \<lparr>message = ROLE_CHANGED_SUCCESSFULLY, status = SUCCESS, userEmail = userEmail',
      previousRole = previous, newRole = Some new, azureADUpdated = True,
      rollbackRequired = False\<rparr>"

text \<open>
  The requests and sleeps of a retry with linear back-off, as the spec words it: while
  attempts remain, send the request; if it is rejected and it was not the last attempt,
  wait the attempt index times 1000 ms and go on with the next attempt. \<open>sent\<close> is the
  number of requests sent before, which is what \<open>rejects\<close> is asked about.
\<close>

fun backoffTrace :: "(nat \<Rightarrow> bool) \<Rightarrow> event \<Rightarrow> nat \<Rightarrow> nat \<Rightarrow> nat \<Rightarrow> event list" where
  "backoffTrace rejects request attempt sent 0 = []"
| "backoffTrace rejects request attempt sent (Suc remaining) =
     request #
       (if rejects sent \<and> remaining \<noteq> 0
        then Sleep (1000 * attempt) # backoffTrace rejects request (Suc attempt) (Suc sent) remaining
        else [])"

text \<open>
  A finite chain of pages as the directory serves it: each page is the answer to the
  link of the page before, and the last page has no link. The URLs of the chain, the
  list requests recorded in a trace, and the assignments of a page that the clearing
  takes for the principal's own.
\<close>

fun pageChain :: "env \<Rightarrow> string \<Rightarrow> listResponse list \<Rightarrow> bool" where
  "pageChain env url [] \<longleftrightarrow> url = []"
| "pageChain env url (p # ps) \<longleftrightarrow>
     url \<noteq> [] \<and> httpGet env url = Some p \<and> resp_status p = 200 \<and>
     pageChain env (resp_nextLink p) ps"

fun chainUrls :: "string \<Rightarrow> listResponse list \<Rightarrow> string list" where
  "chainUrls url [] = []"
| "chainUrls url (p # ps) = url # chainUrls (resp_nextLink p) ps"

fun listRequests :: "event list \<Rightarrow> string list" where
  "listRequests [] = []"
| "listRequests (HttpGet url # evs) = url # listRequests evs"
| "listRequests (_ # evs) = listRequests evs"

definition ownAssignments :: "string \<Rightarrow> assignment list \<Rightarrow> assignment list" where
  "ownAssignments principalId' page =
     filter (\<lambda>a. aid a \<noteq> [] \<and> principalId a = principalId') page"

section \<open>Concrete scenarios\<close>

text \<open>
  A directory with the four role scopes configured and four accounts, each holding the
  grant of its role, and a local store with the same four users: an Employee, an Admin,
  a Supervisor and a SuperAdmin. In \<open>env0\<close> every call succeeds and the grants come in
  one page.
\<close>

definition grantD :: assignment where
  "grantD = \<lparr>aid = ''g1'', principalId = ''oid-d'', appRoleId = Some ''emp-role''\<rparr>"

definition grantA :: assignment where
  "grantA = \<lparr>aid = ''g2'', principalId = ''oid-a'', appRoleId = Some ''adm-role''\<rparr>"

definition grantS :: assignment where
  "grantS = \<lparr>aid = ''g3'', principalId = ''oid-s'', appRoleId = Some ''sup-role''\<rparr>"

definition env0 :: env where
  "env0 =
     \<lparr>SUPERVISORS_GROUP_ID = Some ''sup-role'', ADMINS_GROUP_ID = Some ''adm-role'',
      EMPLOYEES_GROUP_ID = Some ''emp-role'', CONTACT_MANAGER_GROUP_ID = Some ''cm-role'',
      directoryUser = (\<lambda>e. map_of [(''d@x.com'', ''oid-d''), (''a@x.com'', ''oid-a''),
                                     (''s@x.com'', ''oid-s''), (''r@x.com'', ''oid-r''),
                                     (''n@x.com'', ''oid-n'')] (toLowerCase e)),
      graphToken = Some ''tok'', servicePrincipal = Some ''sp'',
      displayNameOf = (\<lambda>_. ''Name''),
      httpGet = (\<lambda>u. if u = appRoleAssignedToUrl ''sp'' @ ''?$top=100''
                      then Some \<lparr>resp_status = 200, resp_value = [grantD, grantA, grantS],
                                 resp_nextLink = []\<rparr>
                      else None),
      httpDeleteFails = (\<lambda>_. False),
      assignFails = (\<lambda>_. False),
      newAssignmentId = (\<lambda>n. ''new''),
      dbReadFails = False, dbWriteFails = (\<lambda>_. False),
      newUserId = (\<lambda>e. ''id-'' @ e),
      auditFails = False, presenceFails = False\<rparr>"

definition dee :: User where
  "dee = \<lparr>user_id = ''u1'', azureAdObjectId = ''oid-d'', email = ''d@x.com'',
           fullName = ''Dee'', role = Employee, roleChangedAt = 0\<rparr>"

definition amy :: User where
  "amy = \<lparr>user_id = ''u2'', azureAdObjectId = ''oid-a'', email = ''a@x.com'',
           fullName = ''Amy'', role = Admin, roleChangedAt = 0\<rparr>"

definition sam :: User where
  "sam = \<lparr>user_id = ''u3'', azureAdObjectId = ''oid-s'', email = ''s@x.com'',
           fullName = ''Sam'', role = Supervisor, roleChangedAt = 0\<rparr>"

definition root :: User where
  "root = \<lparr>user_id = ''u0'', azureAdObjectId = ''oid-r'', email = ''r@x.com'',
            fullName = ''Root'', role = SuperAdmin, roleChangedAt = 0\<rparr>"

definition w0 :: world where
  "w0 = \<lparr>users = [''d@x.com'' \<mapsto> dee, ''a@x.com'' \<mapsto> amy, ''s@x.com'' \<mapsto> sam,
                   ''r@x.com'' \<mapsto> root],
          auditLog = [], grants = [grantD, grantA, grantS], offline = [], now = 0,
          dbWrites = 0, posts = 0, trace = []\<rparr>"


text \<open>
  A user-side listing of two grants of \<^verbatim>\<open>oid-d\<close> that the directory returns in two
  pages.
\<close>

definition grantD2 :: assignment where
  "grantD2 = \<lparr>aid = ''g4'', principalId = ''oid-d'', appRoleId = Some ''sup-role''\<rparr>"

definition envTwoPages :: env where
  "envTwoPages =
     env0\<lparr>httpGet := (\<lambda>u.
        if u = ''https://graph.microsoft.com/v1.0/users/oid-d/appRoleAssignments''
                 @ ''?$filter=resourceId eq sp''
           \<or> u = appRoleAssignedToUrl ''sp'' @ ''?$top=100''
        then Some \<lparr>resp_status = 200, resp_value = [grantD], resp_nextLink = ''page2''\<rparr>
        else if u = ''page2''
        then Some \<lparr>resp_status = 200, resp_value = [grantD2], resp_nextLink = []\<rparr>
        else None)\<rparr>"

definition wTwoGrants :: world where
  "wTwoGrants = w0\<lparr>grants := [grantD, grantD2]\<rparr>"

section \<open>Basic facts about the calls\<close>

lemma assign_fails:
  "assignFails env (posts w) \<Longrightarrow>
   assignAppRoleToPrincipal env w token spId adId rid =
     (Inl (Error ''Request failed''),
      (logEvent (HttpPost (appRoleAssignedToUrl spId) adId rid) w)\<lparr>posts := Suc (posts w)\<rparr>)"
  by (simp add: assignAppRoleToPrincipal_def)

lemma assign_succeeds:
  "\<not> assignFails env (posts w) \<Longrightarrow>
   assignAppRoleToPrincipal env w token spId adId rid =
     (Inr (),
      (logEvent (HttpPost (appRoleAssignedToUrl spId) adId rid) w)
        \<lparr>posts := Suc (posts w),
         grants := grants w @ [\<lparr>aid = newAssignmentId env (posts w), principalId = adId,
                               appRoleId = rid\<rparr>]\<rparr>)"
  by (simp add: assignAppRoleToPrincipal_def Let_def)

section \<open>The bounded retry of the directory assignment\<close>

text \<open>
  The three ways the retry with ceiling \<open>2\<close> can run, as values: the first request is
  accepted; the first is rejected and the second accepted; both are rejected.
\<close>

lemma retry2_first_succeeds:
  assumes "\<not> assignFails env (posts w)"
  shows "updateAzureADWithRetry env w token spId adId r 2 =
     (RETRY_SUCCESS, snd (assignAppRoleToPrincipal env w token spId adId (roleIdOf env r)))"
  unfolding updateAzureADWithRetry_def
  by (subst updateAzureADWithRetry_loop.simps) (simp add: assign_succeeds assms)

lemma retry2_second_succeeds:
  assumes "assignFails env (posts w)" and "\<not> assignFails env (Suc (posts w))"
  shows "updateAzureADWithRetry env w token spId adId r 2 =
     (RETRY_SUCCESS,
      snd (assignAppRoleToPrincipal env
             (sleep 1000 (snd (assignAppRoleToPrincipal env w token spId adId (roleIdOf env r))))
             token spId adId (roleIdOf env r)))"
  unfolding updateAzureADWithRetry_def
  apply (subst updateAzureADWithRetry_loop.simps)
  apply (simp add: assign_fails assms)
  apply (subst updateAzureADWithRetry_loop.simps)
  apply (simp add: assign_succeeds assms sleep_def logEvent_def)
  done

lemma retry2_both_fail:
  assumes "assignFails env (posts w)" and "assignFails env (Suc (posts w))"
  shows "updateAzureADWithRetry env w token spId adId r 2 =
     (MAX_RETRIES_EXCEEDED,
      snd (assignAppRoleToPrincipal env
             (sleep 1000 (snd (assignAppRoleToPrincipal env w token spId adId (roleIdOf env r))))
             token spId adId (roleIdOf env r)))"
  unfolding updateAzureADWithRetry_def
  apply (subst updateAzureADWithRetry_loop.simps)
  apply (simp add: assign_fails assms)
  apply (subst updateAzureADWithRetry_loop.simps)
  apply (simp add: assign_fails assms sleep_def logEvent_def)
  done

lemma retry2_trace:
  "trace (snd (updateAzureADWithRetry env w token spId adId r 2)) = trace w @
     (if assignFails env (posts w)
      then [HttpPost (appRoleAssignedToUrl spId) adId (roleIdOf env r), Sleep 1000,
            HttpPost (appRoleAssignedToUrl spId) adId (roleIdOf env r)]
      else [HttpPost (appRoleAssignedToUrl spId) adId (roleIdOf env r)])"
proof (cases "assignFails env (posts w)")
  case False
  then show ?thesis
    by (simp add: retry2_first_succeeds assign_succeeds logEvent_def)
next
  case first: True
  show ?thesis
  proof (cases "assignFails env (Suc (posts w))")
    case True
    with first show ?thesis
      by (simp add: retry2_both_fail assign_fails logEvent_def sleep_def)
  next
    case False
    with first show ?thesis
      by (simp add: retry2_second_succeeds assign_fails assign_succeeds logEvent_def sleep_def)
  qed
qed

text \<open>
  For any ceiling: the loop sends at most as many requests as attempts remain, and it
  reports \<^verbatim>\<open>MAX_RETRIES_EXCEEDED\<close> exactly when every one of them is rejected.
\<close>

lemma retry_loop_posts:
  "posts (snd (updateAzureADWithRetry_loop env token spId adId roleId maxRetries attempt w))
     \<le> posts w + (Suc maxRetries - attempt)"
proof (induction env token spId adId roleId maxRetries attempt w
         rule: updateAzureADWithRetry_loop.induct)
  case (1 env token spId adId roleId maxRetries attempt w)
  show ?case
  proof (cases "attempt \<le> maxRetries")
    case False
    then show ?thesis by (subst updateAzureADWithRetry_loop.simps) simp
  next
    case inRange: True
    show ?thesis
    proof (cases "assignFails env (posts w)")
      case False
      with inRange show ?thesis
        by (subst updateAzureADWithRetry_loop.simps)
           (simp add: assign_succeeds logEvent_def)
    next
      case True
      show ?thesis
      proof (cases "attempt = maxRetries")
        case True
        with inRange \<open>assignFails env (posts w)\<close> show ?thesis
          by (subst updateAzureADWithRetry_loop.simps) (simp add: assign_fails logEvent_def)
      next
        case False
        from "1.IH" [OF inRange _ _ False, of _ _ "Error ''Request failed''"]
          inRange \<open>assignFails env (posts w)\<close> False
        show ?thesis
          by (subst updateAzureADWithRetry_loop.simps)
             (simp add: assign_fails logEvent_def sleep_def)
      qed
    qed
  qed
qed

lemma retry_loop_exceeded_iff:
  "fst (updateAzureADWithRetry_loop env token spId adId roleId maxRetries attempt w) =
     MAX_RETRIES_EXCEEDED \<longleftrightarrow>
   (\<forall>i. i < Suc maxRetries - attempt \<longrightarrow> assignFails env (posts w + i))"
proof (induction env token spId adId roleId maxRetries attempt w
         rule: updateAzureADWithRetry_loop.induct)
  case (1 env token spId adId roleId maxRetries attempt w)
  show ?case
  proof (cases "attempt \<le> maxRetries")
    case False
    then show ?thesis by (subst updateAzureADWithRetry_loop.simps) simp
  next
    case inRange: True
    show ?thesis
    proof (cases "assignFails env (posts w)")
      case False
      with inRange show ?thesis
        by (subst updateAzureADWithRetry_loop.simps)
           (auto simp add: assign_succeeds logEvent_def intro: exI [of _ 0])
    next
      case fails: True
      show ?thesis
      proof (cases "attempt = maxRetries")
        case True
        with inRange fails show ?thesis
          by (subst updateAzureADWithRetry_loop.simps) (simp add: assign_fails logEvent_def)
      next
        case False
        have shift: "(\<forall>i. i < Suc maxRetries - attempt \<longrightarrow> assignFails env (posts w + i)) \<longleftrightarrow>
            (\<forall>i. i < Suc maxRetries - Suc attempt \<longrightarrow> assignFails env (Suc (posts w) + i))"
        proof
          assume a: "\<forall>i. i < Suc maxRetries - attempt \<longrightarrow> assignFails env (posts w + i)"
          show "\<forall>i. i < Suc maxRetries - Suc attempt \<longrightarrow> assignFails env (Suc (posts w) + i)"
          proof (intro allI impI)
            fix i assume "i < Suc maxRetries - Suc attempt"
            then have "Suc i < Suc maxRetries - attempt" by arith
            with a have "assignFails env (posts w + Suc i)" by blast
            then show "assignFails env (Suc (posts w) + i)" by simp
          qed
        next
          assume a: "\<forall>i. i < Suc maxRetries - Suc attempt \<longrightarrow> assignFails env (Suc (posts w) + i)"
          show "\<forall>i. i < Suc maxRetries - attempt \<longrightarrow> assignFails env (posts w + i)"
          proof (intro allI impI)
            fix i assume i: "i < Suc maxRetries - attempt"
            show "assignFails env (posts w + i)"
            proof (cases i)
              case 0
              with fails show ?thesis by simp
            next
              case (Suc j)
              with i have "j < Suc maxRetries - Suc attempt" by arith
              with a have "assignFails env (Suc (posts w) + j)" by blast
              with Suc show ?thesis by simp
            qed
          qed
        qed
        from "1.IH" [OF inRange _ _ False, of _ _ "Error ''Request failed''"]
          inRange fails False shift
        show ?thesis
          by (subst updateAzureADWithRetry_loop.simps)
             (simp add: assign_fails logEvent_def sleep_def)
      qed
    qed
  qed
qed

lemma retry_loop_trace:
  "trace (snd (updateAzureADWithRetry_loop env token spId adId roleId maxRetries attempt w)) =
   trace w @ backoffTrace (assignFails env) (HttpPost (appRoleAssignedToUrl spId) adId roleId)
               attempt (posts w) (Suc maxRetries - attempt)"
proof (induction env token spId adId roleId maxRetries attempt w
         rule: updateAzureADWithRetry_loop.induct)
  case (1 env token spId adId roleId maxRetries attempt w)
  show ?case
  proof (cases "attempt \<le> maxRetries")
    case False
    then show ?thesis by (subst updateAzureADWithRetry_loop.simps) simp
  next
    case inRange: True
    then have rem: "Suc maxRetries - attempt = Suc (maxRetries - attempt)" by arith
    show ?thesis
    proof (cases "assignFails env (posts w)")
      case False
      with inRange show ?thesis
        by (subst updateAzureADWithRetry_loop.simps)
           (simp add: rem assign_succeeds logEvent_def)
    next
      case fails: True
      show ?thesis
      proof (cases "attempt = maxRetries")
        case True
        with inRange fails show ?thesis
          by (subst updateAzureADWithRetry_loop.simps) (simp add: assign_fails logEvent_def)
      next
        case False
        with inRange have more: "maxRetries - attempt \<noteq> 0"
          and next_rem: "Suc maxRetries - Suc attempt = maxRetries - attempt" by arith+
        from "1.IH" [OF inRange _ _ False, of _ _ "Error ''Request failed''"]
          inRange fails False more
        show ?thesis
          by (subst updateAzureADWithRetry_loop.simps)
             (simp add: rem next_rem assign_fails logEvent_def sleep_def)
      qed
    qed
  qed
qed

text \<open>
  C7. The directory assignment, as \<^verbatim>\<open>changeUserRole\<close> calls it (ceiling \<open>2\<close>), sends at most
  two requests. It reports success as soon as a request is accepted: after an accepted
  first request nothing else happens. Between the first and the second request it
  sleeps \<open>1 * 1000\<close> ms, and there is no sleep after the second. It reports
  \<^verbatim>\<open>MAX_RETRIES_EXCEEDED\<close> exactly when both requests are rejected, and success otherwise.
  The same holds for every ceiling: at most that many requests are sent, the outcome is
  \<^verbatim>\<open>MAX_RETRIES_EXCEEDED\<close> exactly when all of them are rejected, and the requests and
  sleeps are those of the linear back-off, the sleep after the rejected attempt \<open>k\<close>
  being \<open>k * 1000\<close> ms unless \<open>k\<close> was the last attempt.
\<close>

theorem updateAzureADWithRetry_bounded_linear_backoff:
  "(case updateAzureADWithRetry env w token spId adId r 2 of (st, w') \<Rightarrow>
     (st = RETRY_SUCCESS \<or> st = MAX_RETRIES_EXCEEDED) \<and>
     (st = MAX_RETRIES_EXCEEDED \<longleftrightarrow>
        assignFails env (posts w) \<and> assignFails env (Suc (posts w))) \<and>
     trace w' = trace w @
       (if assignFails env (posts w)
        then [HttpPost (appRoleAssignedToUrl spId) adId (roleIdOf env r), Sleep (1000 * 1),
              HttpPost (appRoleAssignedToUrl spId) adId (roleIdOf env r)]
        else [HttpPost (appRoleAssignedToUrl spId) adId (roleIdOf env r)]) \<and>
     now w' = now w + (if assignFails env (posts w) then 1000 * 1 else 0) \<and>
     posts w' \<le> posts w + 2) \<and>
   (\<forall>maxRetries.
      case updateAzureADWithRetry env w token spId adId r maxRetries of (st, w') \<Rightarrow>
        posts w' \<le> posts w + maxRetries \<and>
        (st = MAX_RETRIES_EXCEEDED \<longleftrightarrow> (\<forall>i<maxRetries. assignFails env (posts w + i))) \<and>
        trace w' = trace w @
          backoffTrace (assignFails env)
            (HttpPost (appRoleAssignedToUrl spId) adId (roleIdOf env r)) 1 (posts w) maxRetries)"
proof (rule conjI)
  show "case updateAzureADWithRetry env w token spId adId r 2 of (st, w') \<Rightarrow>
     (st = RETRY_SUCCESS \<or> st = MAX_RETRIES_EXCEEDED) \<and>
     (st = MAX_RETRIES_EXCEEDED \<longleftrightarrow>
        assignFails env (posts w) \<and> assignFails env (Suc (posts w))) \<and>
     trace w' = trace w @
       (if assignFails env (posts w)
        then [HttpPost (appRoleAssignedToUrl spId) adId (roleIdOf env r), Sleep (1000 * 1),
              HttpPost (appRoleAssignedToUrl spId) adId (roleIdOf env r)]
        else [HttpPost (appRoleAssignedToUrl spId) adId (roleIdOf env r)]) \<and>
     now w' = now w + (if assignFails env (posts w) then 1000 * 1 else 0) \<and>
     posts w' \<le> posts w + 2"
  proof (cases "assignFails env (posts w)")
    case False
    then show ?thesis
      by (simp add: retry2_first_succeeds assign_succeeds logEvent_def)
  next
    case first: True
    show ?thesis
    proof (cases "assignFails env (Suc (posts w))")
      case True
      with first show ?thesis
        by (simp add: retry2_both_fail assign_fails logEvent_def sleep_def)
    next
      case False
      with first show ?thesis
        by (simp add: retry2_second_succeeds assign_fails assign_succeeds logEvent_def
              sleep_def)
    qed
  qed
next
  show "\<forall>maxRetries.
      case updateAzureADWithRetry env w token spId adId r maxRetries of (st, w') \<Rightarrow>
        posts w' \<le> posts w + maxRetries \<and>
        (st = MAX_RETRIES_EXCEEDED \<longleftrightarrow> (\<forall>i<maxRetries. assignFails env (posts w + i))) \<and>
        trace w' = trace w @
          backoffTrace (assignFails env)
            (HttpPost (appRoleAssignedToUrl spId) adId (roleIdOf env r)) 1 (posts w) maxRetries"
  proof
    fix maxRetries
    show "case updateAzureADWithRetry env w token spId adId r maxRetries of (st, w') \<Rightarrow>
        posts w' \<le> posts w + maxRetries \<and>
        (st = MAX_RETRIES_EXCEEDED \<longleftrightarrow> (\<forall>i<maxRetries. assignFails env (posts w + i))) \<and>
        trace w' = trace w @
          backoffTrace (assignFails env)
            (HttpPost (appRoleAssignedToUrl spId) adId (roleIdOf env r)) 1 (posts w) maxRetries"
      using retry_loop_posts [of env token spId adId "roleIdOf env r" maxRetries 1 w]
        retry_loop_exceeded_iff [of env token spId adId "roleIdOf env r" maxRetries 1 w]
        retry_loop_trace [of env token spId adId "roleIdOf env r" maxRetries 1 w]
      by (simp add: updateAzureADWithRetry_def case_prod_beta)
  qed
qed

theorem updateAzureADWithRetry_bounded_linear_backoff_witness:
  "fst (updateAzureADWithRetry (env0\<lparr>assignFails := (\<lambda>n. n = 0)\<rparr>) w0 ''tok'' ''sp'' ''oid-d''
          Admin 2) = RETRY_SUCCESS \<and>
   trace (snd (updateAzureADWithRetry (env0\<lparr>assignFails := (\<lambda>n. n = 0)\<rparr>) w0 ''tok'' ''sp''
                 ''oid-d'' Admin 2)) =
     [HttpPost (appRoleAssignedToUrl ''sp'') ''oid-d'' (Some ''adm-role''), Sleep 1000,
      HttpPost (appRoleAssignedToUrl ''sp'') ''oid-d'' (Some ''adm-role'')] \<and>
   fst (updateAzureADWithRetry (env0\<lparr>assignFails := (\<lambda>n. True)\<rparr>) w0 ''tok'' ''sp'' ''oid-d''
          Admin 3) = MAX_RETRIES_EXCEEDED \<and>
   trace (snd (updateAzureADWithRetry (env0\<lparr>assignFails := (\<lambda>n. True)\<rparr>) w0 ''tok'' ''sp''
                 ''oid-d'' Admin 3)) =
     [HttpPost (appRoleAssignedToUrl ''sp'') ''oid-d'' (Some ''adm-role''), Sleep 1000,
      HttpPost (appRoleAssignedToUrl ''sp'') ''oid-d'' (Some ''adm-role''), Sleep 2000,
      HttpPost (appRoleAssignedToUrl ''sp'') ''oid-d'' (Some ''adm-role'')]"
proof -
  note two = updateAzureADWithRetry_bounded_linear_backoff
          [where env = "env0\<lparr>assignFails := (\<lambda>n. n = 0)\<rparr>" and w = w0 and token = "''tok''"
             and spId = "''sp''" and adId = "''oid-d''" and r = Admin, THEN conjunct1]
  note three = updateAzureADWithRetry_bounded_linear_backoff
          [where env = "env0\<lparr>assignFails := (\<lambda>n. True)\<rparr>" and w = w0 and token = "''tok''"
             and spId = "''sp''" and adId = "''oid-d''" and r = Admin, THEN conjunct2,
           THEN spec, of 3]
  have role: "roleIdOf env0 Admin = Some ''adm-role''"
             "roleIdOf (env0\<lparr>assignFails := f\<rparr>) Admin = Some ''adm-role''" for f
    by (simp_all add: roleIdOf_def roleIdMap_def env0_def)
  from two have
    "fst (updateAzureADWithRetry (env0\<lparr>assignFails := (\<lambda>n. n = 0)\<rparr>) w0 ''tok'' ''sp''
            ''oid-d'' Admin 2) = RETRY_SUCCESS \<and>
     trace (snd (updateAzureADWithRetry (env0\<lparr>assignFails := (\<lambda>n. n = 0)\<rparr>) w0 ''tok'' ''sp''
                 ''oid-d'' Admin 2)) =
     [HttpPost (appRoleAssignedToUrl ''sp'') ''oid-d'' (Some ''adm-role''), Sleep 1000,
      HttpPost (appRoleAssignedToUrl ''sp'') ''oid-d'' (Some ''adm-role'')]"
    by (auto simp add: role w0_def split: prod.splits)
  moreover from three have
    "fst (updateAzureADWithRetry (env0\<lparr>assignFails := (\<lambda>n. True)\<rparr>) w0 ''tok'' ''sp''
            ''oid-d'' Admin 3) = MAX_RETRIES_EXCEEDED \<and>
     trace (snd (updateAzureADWithRetry (env0\<lparr>assignFails := (\<lambda>n. True)\<rparr>) w0 ''tok'' ''sp''
                 ''oid-d'' Admin 3)) =
     [HttpPost (appRoleAssignedToUrl ''sp'') ''oid-d'' (Some ''adm-role''), Sleep 1000,
      HttpPost (appRoleAssignedToUrl ''sp'') ''oid-d'' (Some ''adm-role''), Sleep 2000,
      HttpPost (appRoleAssignedToUrl ''sp'') ''oid-d'' (Some ''adm-role'')]"
    by (auto simp add: role w0_def numeral_3_eq_3 split: prod.splits)
  ultimately show ?thesis by simp
qed

section \<open>Steps that only clear grants\<close>

lemma onlyGrantsRemoved_refl: "onlyGrantsRemoved w w"
  by (simp add: onlyGrantsRemoved_def)

lemma onlyGrantsRemoved_trans:
  "onlyGrantsRemoved w w1 \<Longrightarrow> onlyGrantsRemoved w1 w2 \<Longrightarrow> onlyGrantsRemoved w w2"
  by (auto simp add: onlyGrantsRemoved_def)

lemma onlyGrantsRemoved_logEvent: "onlyGrantsRemoved w (logEvent ev w)"
  by (simp add: onlyGrantsRemoved_def logEvent_def)

lemma onlyGrantsRemoved_resolved: "onlyGrantsRemoved w (resolved e w)"
  by (simp add: onlyGrantsRemoved_def resolved_def)

lemma page_onlyGrantsRemoved:
  "removeAllAppRolesFromPrincipalOnSp_page env base p page n w = (out, w') \<Longrightarrow>
   onlyGrantsRemoved w w'"
proof (induction env base p page n w rule: removeAllAppRolesFromPrincipalOnSp_page.induct)
  case (1 env base p removed w)
  then show ?case by (simp add: onlyGrantsRemoved_def)
next
  case (2 env base p a page removed w)
  then show ?case
    by (auto simp add: onlyGrantsRemoved_def logEvent_def Let_def split: if_splits)
qed

text \<open>
  The paging loop need not return; when it does, whatever its result, it has only
  removed grants. The proof is by the fixed-point induction of the partial function.
\<close>

lemma loop_onlyGrantsRemoved:
  assumes "removeAllAppRolesFromPrincipalOnSp_loop env base p url n w = Some y"
  shows "onlyGrantsRemoved w (snd y)"
proof (rule removeAllAppRolesFromPrincipalOnSp_loop.raw_induct
         [where P = "\<lambda>env base p url n w y. onlyGrantsRemoved w (snd y)", OF _ assms], goal_cases)
  case (1 loop env base p url n w y)
  show ?case
  proof (cases "url = []")
    case True
    with 1(2) show ?thesis by (auto intro: onlyGrantsRemoved_refl)
  next
    case nonempty: False
    show ?thesis
    proof (cases "httpGet env url")
      case None
      with nonempty 1(2) show ?thesis by (auto intro: onlyGrantsRemoved_logEvent)
    next
      case (Some resp)
      show ?thesis
      proof (cases "resp_status resp = 200")
        case False
        with nonempty Some 1(2) show ?thesis by (auto intro: onlyGrantsRemoved_logEvent)
      next
        case True
        obtain out w2 where page:
          "removeAllAppRolesFromPrincipalOnSp_page env base p (resp_value resp) n
             (logEvent (HttpGet url) w) = (out, w2)"
          by (cases "removeAllAppRolesFromPrincipalOnSp_page env base p (resp_value resp) n
             (logEvent (HttpGet url) w)") auto
        have f2: "onlyGrantsRemoved w w2"
          using page_onlyGrantsRemoved [OF page] onlyGrantsRemoved_logEvent
            onlyGrantsRemoved_trans by blast
        show ?thesis
        proof (cases out)
          case (Inl e)
          with nonempty Some True page 1(2) have "y = (Inl e, w2)" by simp
          with f2 show ?thesis by simp
        next
          case (Inr n')
          with nonempty Some True page 1(2)
          have "loop env base p (resp_nextLink resp) n' w2 = Some y"
            by (simp add: Let_def)
          from 1(1) [OF this] f2 show ?thesis by (rule onlyGrantsRemoved_trans [rotated])
        qed
      qed
    qed
  qed
qed

lemma clear_onlyGrantsRemoved:
  "removeAllAppRolesFromPrincipalOnSp env w token spId p = Some (out, w') \<Longrightarrow>
   onlyGrantsRemoved w w'"
  using loop_onlyGrantsRemoved [of env _ p _ 0 w "(out, w')"]
  by (simp add: removeAllAppRolesFromPrincipalOnSp_def)

lemma clear_result_world:
  assumes "map_option fst (removeAllAppRolesFromPrincipalOnSp env w token spId adId) = Some res"
  obtains w5 where "removeAllAppRolesFromPrincipalOnSp env w token spId adId = Some (res, w5)"
    and "onlyGrantsRemoved w w5"
proof -
  from assms obtain w5 where
    c: "removeAllAppRolesFromPrincipalOnSp env w token spId adId = Some (res, w5)"
    by (cases "removeAllAppRolesFromPrincipalOnSp env w token spId adId") auto
  from clear_onlyGrantsRemoved [OF c] c that show thesis by blast
qed

section \<open>Paging of the directory listings\<close>

text \<open>
  \<^verbatim>\<open>fetchAppRoleMemberIds\<close> and \<^verbatim>\<open>removeAllAppRolesFromPrincipalOnSp\<close> follow the links: on
  a finite chain of pages they return, having requested every page of the chain in
  order and nothing else; the first has collected from every page, the second (when no
  delete is rejected) has deleted every listed assignment of the principal.
  \<^verbatim>\<open>removeAllAppRolesFromUser\<close> sends exactly one list request, whatever the answer.
\<close>

lemma listRequests_append: "listRequests (xs @ ys) = listRequests xs @ listRequests ys"
  by (induction xs rule: listRequests.induct) simp_all

lemma fetch_loop_follows_chain:
  "pageChain env url ps \<Longrightarrow>
   fetchAppRoleMemberIds_loop env roleId url memberIds w =
     Some (Inr (foldl (\<lambda>m p. fetchAppRoleMemberIds_page roleId (resp_value p) m) memberIds ps),
           w\<lparr>trace := trace w @ map HttpGet (chainUrls url ps)\<rparr>)"
proof (induction ps arbitrary: url memberIds w)
  case Nil
  then show ?case
    by (subst fetchAppRoleMemberIds_loop.simps) simp
next
  case (Cons p ps)
  from Cons.prems have step: "url \<noteq> []" "httpGet env url = Some p" "resp_status p = 200"
    and rest: "pageChain env (resp_nextLink p) ps" by simp_all
  show ?case
    by (subst fetchAppRoleMemberIds_loop.simps)
       (simp add: step Cons.IH [OF rest] logEvent_def)
qed

lemma page_all_deleted:
  assumes "\<forall>u. \<not> httpDeleteFails env u"
  shows "removeAllAppRolesFromPrincipalOnSp_page env base p page n w =
     (Inr (n + length (ownAssignments p page)),
      w\<lparr>trace := trace w @ map (\<lambda>a. HttpDelete (base @ ''/'' @ aid a)) (ownAssignments p page),
        grants := filter (\<lambda>g. aid g \<notin> aid ` set (ownAssignments p page)) (grants w)\<rparr>)"
proof (induction page arbitrary: n w)
  case Nil
  then show ?case by (simp add: ownAssignments_def)
next
  case (Cons a page)
  show ?case
    using assms
    by (simp add: Cons.IH ownAssignments_def logEvent_def Let_def conj_commute)
qed


lemma listRequests_deletes [simp]: "listRequests (map (\<lambda>a. HttpDelete (f a)) xs) = []"
  by (induction xs) simp_all

lemma ownAssignments_append:
  "ownAssignments p (xs @ ys) = ownAssignments p xs @ ownAssignments p ys"
  by (simp add: ownAssignments_def)

lemma clear_loop_follows_chain:
  assumes "pageChain env url ps" and ok: "\<forall>u. \<not> httpDeleteFails env u"
  shows "\<exists>w'. removeAllAppRolesFromPrincipalOnSp_loop env base p url n w =
          Some (Inr (n + length (ownAssignments p (concat (map resp_value ps)))), w') \<and>
        listRequests (trace w') = listRequests (trace w) @ chainUrls url ps \<and>
        grants w' =
          filter (\<lambda>g. aid g \<notin> aid ` set (ownAssignments p (concat (map resp_value ps))))
            (grants w)"
  using assms(1)
proof (induction ps arbitrary: url n w)
  case Nil
  then show ?case
    by (subst removeAllAppRolesFromPrincipalOnSp_loop.simps) (simp add: ownAssignments_def)
next
  case (Cons q ps)
  from Cons.prems have step: "url \<noteq> []" "httpGet env url = Some q" "resp_status q = 200"
    and rest: "pageChain env (resp_nextLink q) ps" by simp_all
  let ?own = "ownAssignments p (resp_value q)"
  let ?w2 = "(logEvent (HttpGet url) w)
        \<lparr>trace := trace (logEvent (HttpGet url) w) @
                   map (\<lambda>a. HttpDelete (base @ ''/'' @ aid a)) ?own,
         grants := filter (\<lambda>g. aid g \<notin> aid ` set ?own) (grants (logEvent (HttpGet url) w))\<rparr>"
  from Cons.IH [OF rest, of "n + length ?own" ?w2] obtain w' where
    loop: "removeAllAppRolesFromPrincipalOnSp_loop env base p (resp_nextLink q)
             (n + length ?own) ?w2 =
           Some (Inr (n + length ?own +
                      length (ownAssignments p (concat (map resp_value ps)))), w')"
    and reqs: "listRequests (trace w') =
               listRequests (trace ?w2) @ chainUrls (resp_nextLink q) ps"
    and gr: "grants w' =
          filter (\<lambda>g. aid g \<notin> aid ` set (ownAssignments p (concat (map resp_value ps))))
            (grants ?w2)"
    by blast
  have "removeAllAppRolesFromPrincipalOnSp_loop env base p url n w =
          Some (Inr (n + length (ownAssignments p (concat (map resp_value (q # ps))))), w')"
    using loop
    by (subst removeAllAppRolesFromPrincipalOnSp_loop.simps)
       (simp add: step page_all_deleted [OF ok] ownAssignments_append Let_def add.assoc)
  moreover have "listRequests (trace w') = listRequests (trace w) @ chainUrls url (q # ps)"
    using reqs by (simp add: logEvent_def listRequests_append)
  moreover have "grants w' =
      filter (\<lambda>g. aid g \<notin> aid ` set (ownAssignments p (concat (map resp_value (q # ps)))))
        (grants w)"
    using gr by (auto simp add: logEvent_def ownAssignments_append intro: filter_cong)
  ultimately show ?case by blast
qed

lemma fetch_pages_collect:
  "foldl (\<lambda>m p. fetchAppRoleMemberIds_page roleId (resp_value p) m) memberIds ps =
   memberIds \<union>
     {principalId a | a. a \<in> set (concat (map resp_value ps)) \<and>
        appRoleId a = Some roleId \<and> principalId a \<noteq> []}"
  by (induction ps arbitrary: memberIds) (auto simp add: fetchAppRoleMemberIds_page_def)

lemma fetchAppRoleMemberIds_follows_links:
  assumes "servicePrincipalId \<noteq> []" and "roleId \<noteq> []"
    and "pageChain env (appRoleAssignedToUrl servicePrincipalId @ ''?$top=100'') ps"
  shows "fetchAppRoleMemberIds env w token servicePrincipalId roleId =
     Some (Inr {principalId a | a. a \<in> set (concat (map resp_value ps)) \<and>
                  appRoleId a = Some roleId \<and> principalId a \<noteq> []},
           w\<lparr>trace := trace w @
                map HttpGet (chainUrls (appRoleAssignedToUrl servicePrincipalId @ ''?$top=100'')
                               ps)\<rparr>)"
  using assms(1,2) fetch_loop_follows_chain [OF assms(3), of roleId "{}" w]
  by (simp add: fetchAppRoleMemberIds_def fetch_pages_collect)

lemma removeAllAppRolesFromPrincipalOnSp_follows_links:
  assumes "pageChain env (appRoleAssignedToUrl spObjectId @ ''?$top=100'') ps"
    and "\<forall>u. \<not> httpDeleteFails env u"
  shows "\<exists>w'. removeAllAppRolesFromPrincipalOnSp env w token spObjectId p =
          Some (Inr (length (ownAssignments p (concat (map resp_value ps)))), w') \<and>
        listRequests (trace w') =
          listRequests (trace w) @ chainUrls (appRoleAssignedToUrl spObjectId @ ''?$top=100'') ps \<and>
        grants w' =
          filter (\<lambda>g. aid g \<notin> aid ` set (ownAssignments p (concat (map resp_value ps))))
            (grants w)"
  using clear_loop_follows_chain [OF assms, of "appRoleAssignedToUrl spObjectId" p 0 w]
  by (simp add: removeAllAppRolesFromPrincipalOnSp_def)

lemma user_deletes_no_list_request:
  "listRequests (trace (snd (removeAllAppRolesFromUser_deletes env userUrl assignments w))) =
   listRequests (trace w)"
  by (induction assignments arbitrary: w)
     (simp_all add: logEvent_def Let_def listRequests_append)

lemma removeAllAppRolesFromUser_one_list_request:
  "listRequests (trace (snd (removeAllAppRolesFromUser env w token spId userObjectId))) =
   listRequests (trace w) @
     [''https://graph.microsoft.com/v1.0/users/'' @ userObjectId @ ''/appRoleAssignments''
        @ ''?$filter=resourceId eq '' @ spId]"
  by (simp add: removeAllAppRolesFromUser_def user_deletes_no_list_request logEvent_def
        listRequests_append Let_def split: option.splits)

text \<open>
  C9. \<^verbatim>\<open>removeAllAppRolesFromUser\<close> lists the user's assignments with one request and never
  reads \<^verbatim>\<open>@odata.nextLink\<close>. When the directory answers the listing of the two grants of
  \<^verbatim>\<open>oid-d\<close> in two pages, it requests the first page, deletes the grant listed there and
  returns normally; the grant of the second page is still in the directory.
  \<^verbatim>\<open>removeAllAppRolesFromPrincipalOnSp\<close>, given the same two pages on its own endpoint,
  requests the second page and removes both grants.
\<close>

theorem removeAllAppRolesFromUser_stops_after_first_page:
  "(case removeAllAppRolesFromUser envTwoPages wTwoGrants ''tok'' ''sp'' ''oid-d'' of
      (out, w') \<Rightarrow> (out, grants w', trace w')) =
     (Inr (), [grantD2],
      [HttpGet (''https://graph.microsoft.com/v1.0/users/oid-d/appRoleAssignments''
                  @ ''?$filter=resourceId eq sp''),
       HttpDelete ''https://graph.microsoft.com/v1.0/users/oid-d/appRoleAssignments/g1'']) \<and>
   map_option resp_nextLink
     (httpGet envTwoPages (''https://graph.microsoft.com/v1.0/users/oid-d/appRoleAssignments''
                             @ ''?$filter=resourceId eq sp'')) = Some ''page2'' \<and>
   map_option resp_value (httpGet envTwoPages ''page2'') = Some [grantD2] \<and>
   grants wTwoGrants = [grantD, grantD2] \<and>
   map_option (\<lambda>(out, w'). (out, grants w', filter (\<lambda>ev. ev = HttpGet ''page2'') (trace w')))
     (removeAllAppRolesFromPrincipalOnSp envTwoPages wTwoGrants ''tok'' ''sp'' ''oid-d'') =
     Some (Inr 2, [], [HttpGet ''page2''])"
  by code_simp

section \<open>The engine, phase by phase\<close>

text \<open>
  Steps 1 to 4: when the policy permits the request, the read of the local store is
  answered and the directory look-ups succeed, the engine is at step 5 with nothing
  written.
\<close>

lemma changeUserRole_prefix:
  assumes "policyPermits currentUser request (users w (toLowerCase (req_userEmail request)))"
    and "\<not> dbReadFails env"
    and "directoryResolves env (req_userEmail request) adId token spId"
  shows "changeUserRole env w request currentUser =
     (case removeAllAppRolesFromPrincipalOnSp env (resolved (req_userEmail request) w)
             token spId adId of
        None \<Rightarrow> None
      | Some (Inl e, w5) \<Rightarrow> Some (Inl e, w5)
      | Some (Inr removed, w5) \<Rightarrow>
          (case req_newRole request of
             None \<Rightarrow> Some (changeUserRole_delete env w5 (req_userEmail request)
                              (users w (toLowerCase (req_userEmail request))) currentUser)
           | Some r \<Rightarrow> Some (changeUserRole_update env w5 (req_userEmail request) r
                               (users w (toLowerCase (req_userEmail request))) currentUser
                               token spId adId)))"
  using assms
  by (simp add: changeUserRole_def policyPermits_def directoryResolves_def andThen_def
        getUserByEmail_def validateUserExists_def getGraphToken_def
        getServicePrincipalObjectId_def logEvent_def resolved_def Let_def)

text \<open>
  Steps 7 to 11, once the update of the local store has been accepted: the outcome as a
  function of what the directory, the second write, the audit log and the presence
  service answer.
\<close>

lemma update_outcome:
  assumes "\<not> dbWriteFails env (dbWrites w)"
  shows "fst (changeUserRole_update env w e r target cu tok sp adId) =
     (if assignFails env (posts w) \<and> assignFails env (Suc (posts w))
      then (if dbWriteFails env (Suc (dbWrites w)) then Inl (Error ''database write failed'')
            else Inr (rollbackResult e (map_option role target) r))
      else if auditFails env then Inl (Error ''audit write failed'')
      else if presenceFails env then Inl (Error ''presence update failed'')
      else Inr (successResult e (map_option role target) r))"
proof (cases "assignFails env (posts w)")
  case False
  with assms show ?thesis
    by (simp add: changeUserRole_update_def getUserDisplayName_def upsertUserRole_def
          logAudit_def setUserOffline_def retry2_first_succeeds assign_succeeds logEvent_def
          successResult_def Let_def)
next
  case first: True
  show ?thesis
  proof (cases "assignFails env (Suc (posts w))")
    case False
    with first assms show ?thesis
      by (simp add: changeUserRole_update_def getUserDisplayName_def upsertUserRole_def
            logAudit_def setUserOffline_def retry2_second_succeeds assign_succeeds assign_fails
            logEvent_def sleep_def successResult_def Let_def)
  next
    case True
    with first assms show ?thesis
      by (simp add: changeUserRole_update_def getUserDisplayName_def upsertUserRole_def
            deleteUserByEmail_def retry2_both_fail assign_fails
            logEvent_def sleep_def rollbackResult_def Let_def split: option.splits)
  qed
qed

text \<open>
  Every run that returns has either failed with nothing but grants removed, or has come
  through steps 1 to 5 and is the removal (step 6) or the update (steps 7 to 11) on a
  world in which only grants have been removed.
\<close>

lemma changeUserRole_cases:
  assumes "changeUserRole env w request currentUser = Some (out, w')"
  shows "(\<exists>e. out = Inl e \<and> onlyGrantsRemoved w w') \<or>
     (\<exists>w5 adId token spId.
        policyPermits currentUser request (users w (toLowerCase (req_userEmail request))) \<and>
        \<not> dbReadFails env \<and>
        directoryResolves env (req_userEmail request) adId token spId \<and>
        onlyGrantsRemoved w w5 \<and>
        (\<exists>removed. removeAllAppRolesFromPrincipalOnSp env (resolved (req_userEmail request) w)
                      token spId adId = Some (Inr removed, w5)) \<and>
        (case req_newRole request of
           None \<Rightarrow> changeUserRole_delete env w5 (req_userEmail request)
                     (users w (toLowerCase (req_userEmail request))) currentUser = (out, w')
         | Some r \<Rightarrow> changeUserRole_update env w5 (req_userEmail request) r
                       (users w (toLowerCase (req_userEmail request))) currentUser
                       token spId adId = (out, w')))"
proof (cases "policyPermits currentUser request (users w (toLowerCase (req_userEmail request)))
     \<and> \<not> dbReadFails env")
  case False
  with assms show ?thesis
    by (auto simp add: changeUserRole_def policyPermits_def getUserByEmail_def Let_def
          andThen_def
          intro: onlyGrantsRemoved_refl onlyGrantsRemoved_logEvent split: sum.splits if_splits)
next
  case permitted: True
  show ?thesis
  proof (cases "\<exists>adId token spId. directoryResolves env (req_userEmail request) adId token spId")
    case False
    then have "directoryUser env (req_userEmail request) = None \<or> graphToken env = None \<or>
        servicePrincipal env = None"
      by (auto simp add: directoryResolves_def)
    with assms permitted have "\<exists>e. out = Inl e \<and> onlyGrantsRemoved w w'"
      by (auto simp add: changeUserRole_def policyPermits_def getUserByEmail_def Let_def
          andThen_def validateUserExists_def getGraphToken_def getServicePrincipalObjectId_def
          onlyGrantsRemoved_def logEvent_def
          split: sum.splits if_splits option.splits)
    then show ?thesis ..
  next
    case True
    then obtain adId token spId where
      dir: "directoryResolves env (req_userEmail request) adId token spId" by blast
    from permitted have perm:
      "policyPermits currentUser request (users w (toLowerCase (req_userEmail request)))"
      and rd: "\<not> dbReadFails env" by simp_all
    note pre = changeUserRole_prefix [OF perm rd dir]
    from assms pre obtain y where
      clear: "removeAllAppRolesFromPrincipalOnSp env (resolved (req_userEmail request) w)
                token spId adId = Some y"
      by (cases "removeAllAppRolesFromPrincipalOnSp env (resolved (req_userEmail request) w)
                token spId adId") auto
    obtain res w5 where y: "y = (res, w5)" by (cases y)
    have fr: "onlyGrantsRemoved w w5"
      using clear_onlyGrantsRemoved [OF clear [unfolded y]] onlyGrantsRemoved_resolved
        onlyGrantsRemoved_trans by blast
    show ?thesis
    proof (cases res)
      case (Inl e)
      with assms pre clear y fr show ?thesis by auto
    next
      case (Inr n)
      with assms pre clear y have
        "case req_newRole request of
           None \<Rightarrow> changeUserRole_delete env w5 (req_userEmail request)
                     (users w (toLowerCase (req_userEmail request))) currentUser = (out, w')
         | Some r \<Rightarrow> changeUserRole_update env w5 (req_userEmail request) r
                       (users w (toLowerCase (req_userEmail request))) currentUser
                       token spId adId = (out, w')"
        by (auto split: option.splits)
      with perm rd dir fr clear y Inr show ?thesis by blast
    qed
  qed
qed

text \<open>
  What a successful return has written to the audit log.
\<close>

lemma update_success_audit:
  assumes run: "changeUserRole_update env w e r target cu tok sp adId = (Inr res, w')"
    and st: "status res = SUCCESS"
    and tgt: "users w (toLowerCase e) = target"
  shows "\<exists>u. users w' (toLowerCase e) = Some u \<and> role u = r \<and>
     auditLog w' = auditLog w @
       [\<lparr>log_entity = USER, log_entityId = user_id u, log_action = ROLE_CHANGE,
         log_changedBy = user_id cu,
         log_dataBefore = (case target of None \<Rightarrow> JsonNull | Some t \<Rightarrow> Json t),
         log_dataAfter = Json u\<rparr>]"
proof (cases "dbWriteFails env (dbWrites w)")
  case True
  with run show ?thesis
    by (simp add: changeUserRole_update_def getUserDisplayName_def upsertUserRole_def
          logEvent_def Let_def)
next
  case wr: False
  show ?thesis
  proof (cases "assignFails env (posts w)")
    case False
    with wr run tgt show ?thesis
      by (auto simp add: changeUserRole_update_def getUserDisplayName_def upsertUserRole_def
          logAudit_def setUserOffline_def retry2_first_succeeds assign_succeeds logEvent_def
          jsonField_def Let_def split: if_splits option.splits)
  next
    case first: True
    show ?thesis
    proof (cases "assignFails env (Suc (posts w))")
      case False
      with first wr run tgt show ?thesis
        by (auto simp add: changeUserRole_update_def getUserDisplayName_def upsertUserRole_def
            logAudit_def setUserOffline_def retry2_second_succeeds assign_succeeds assign_fails
            logEvent_def sleep_def jsonField_def Let_def split: if_splits option.splits)
    next
      case True
      with first wr run st show ?thesis
        by (auto simp add: changeUserRole_update_def getUserDisplayName_def upsertUserRole_def
            deleteUserByEmail_def retry2_both_fail assign_fails
            logEvent_def sleep_def Let_def split: option.splits if_splits)
    qed
  qed
qed

lemma delete_audit:
  assumes run: "changeUserRole_delete env w e target cu = (Inr res, w')"
    and tgt: "users w (toLowerCase e) = target"
  shows "case target of
       None \<Rightarrow> w' = w
     | Some t \<Rightarrow> users w' (toLowerCase e) = None \<and>
         auditLog w' = auditLog w @
           [\<lparr>log_entity = USER, log_entityId = user_id t, log_action = DELETE,
             log_changedBy = user_id cu, log_dataBefore = Json t, log_dataAfter = Unset\<rparr>]"
  using assms
  by (auto simp add: changeUserRole_delete_def deleteUserByEmail_def logAudit_def logEvent_def
        jsonField_def Let_def split: option.splits if_splits)


text \<open>
  Steps 7 to 9 when the update of the local store is accepted and both assignment
  requests are rejected: the calls made, in order, what they leave behind, and the
  outcome according to whether the compensating write is accepted.
\<close>

lemma update_rollback_run:
  assumes "\<not> dbWriteFails env (dbWrites w)"
    and "assignFails env (posts w)" and "assignFails env (Suc (posts w))"
    and "users w (toLowerCase e) = target"
  shows "case changeUserRole_update env w e r target cu tok sp adId of (out, w') \<Rightarrow>
     trace w' = trace w @
       [HttpGet (''https://graph.microsoft.com/v1.0/users/'' @ adId), StoreUpsert e r,
        HttpPost (appRoleAssignedToUrl sp) adId (roleIdOf env r), Sleep 1000,
        HttpPost (appRoleAssignedToUrl sp) adId (roleIdOf env r),
        (case target of None \<Rightarrow> StoreDelete e | Some t \<Rightarrow> StoreUpsert e (role t))] \<and>
     dbWrites w' = dbWrites w + 2 \<and> posts w' = posts w + 2 \<and> now w' = now w + 1000 \<and>
     grants w' = grants w \<and>
     (\<forall>k. k \<noteq> toLowerCase e \<longrightarrow> users w' k = users w k) \<and>
     auditLog w' = auditLog w \<and> offline w' = offline w \<and>
     (if dbWriteFails env (Suc (dbWrites w))
      then out = Inl (Error ''database write failed'') \<and>
           map_option role (users w' (toLowerCase e)) = Some r
      else out = Inr (rollbackResult e (map_option role target) r) \<and>
           users w' (toLowerCase e) =
             map_option (\<lambda>t. t\<lparr>roleChangedAt := now w + 1000\<rparr>) target)"
  using assms
  by (auto simp add: changeUserRole_update_def getUserDisplayName_def upsertUserRole_def
        deleteUserByEmail_def retry2_both_fail assign_fails rollbackResult_def
        logEvent_def sleep_def Let_def split: option.splits)

lemma update_grants:
  assumes "changeUserRole_update env w e r target cu tok sp adId = (out, w')"
  shows "\<forall>g \<in> set (grants w'). g \<in> set (grants w) \<or> appRoleId g = roleIdOf env r"
proof (cases "dbWriteFails env (dbWrites w)")
  case True
  with assms show ?thesis
    by (auto simp add: changeUserRole_update_def getUserDisplayName_def upsertUserRole_def
          logEvent_def Let_def)
next
  case wr: False
  show ?thesis
  proof (cases "assignFails env (posts w)")
    case False
    with wr assms show ?thesis
      by (auto simp add: changeUserRole_update_def getUserDisplayName_def upsertUserRole_def
          logAudit_def setUserOffline_def retry2_first_succeeds assign_succeeds logEvent_def
          Let_def split: if_splits option.splits)
  next
    case first: True
    show ?thesis
    proof (cases "assignFails env (Suc (posts w))")
      case False
      with first wr assms show ?thesis
        by (auto simp add: changeUserRole_update_def getUserDisplayName_def upsertUserRole_def
            logAudit_def setUserOffline_def retry2_second_succeeds assign_succeeds assign_fails
            logEvent_def sleep_def Let_def split: if_splits option.splits)
    next
      case True
      with first wr assms show ?thesis
        by (auto simp add: changeUserRole_update_def getUserDisplayName_def upsertUserRole_def
            deleteUserByEmail_def retry2_both_fail assign_fails
            logEvent_def sleep_def Let_def split: option.splits if_splits)
    qed
  qed
qed

lemma delete_grants:
  assumes "changeUserRole_delete env w e target cu = (out, w')"
  shows "grants w' = grants w"
  using assms
  by (auto simp add: changeUserRole_delete_def deleteUserByEmail_def logAudit_def logEvent_def
        Let_def split: option.splits if_splits)

section \<open>Rollback after the directory assignment fails\<close>

text \<open>
  C1, as the spec states it, does not hold: the compensating write is awaited without a
  \<^verbatim>\<open>try\<close>, so the rollback happens only if the local store accepts that write. With a
  directory that rejects every assignment and a local store that accepts the update and
  rejects the write after it, the SuperAdmin's change of \<^verbatim>\<open>d@x.com\<close> to Admin passes the
  policy, clears the grant, updates the local store and fails both assignment attempts;
  then the run ends in the thrown error of the compensating write, and the local store
  keeps Admin.
\<close>

theorem failed_compensating_write_is_thrown_counterexample:
  "map_option (\<lambda>(out, w'). (out, map_option role (users w' ''d@x.com''), trace w'))
     (changeUserRole (env0\<lparr>assignFails := (\<lambda>_. True), dbWriteFails := (\<lambda>k. k = 1)\<rparr>) w0
        \<lparr>req_userEmail = ''d@x.com'', req_newRole = Some Admin\<rparr> root) =
   Some (Inl (Error ''database write failed''), Some Admin,
         [StoreRead ''d@x.com'', DirectoryLookup ''d@x.com'', TokenRequest,
          HttpGet ''https://graph.microsoft.com/v1.0/servicePrincipals'',
          HttpGet (appRoleAssignedToUrl ''sp'' @ ''?$top=100''),
          HttpDelete (appRoleAssignedToUrl ''sp'' @ ''/g1''),
          HttpGet ''https://graph.microsoft.com/v1.0/users/oid-d'',
          StoreUpsert ''d@x.com'' Admin,
          HttpPost (appRoleAssignedToUrl ''sp'') ''oid-d'' (Some ''adm-role''), Sleep 1000,
          HttpPost (appRoleAssignedToUrl ''sp'') ''oid-d'' (Some ''adm-role''),
          StoreUpsert ''d@x.com'' Employee])"
  by code_simp

text \<open>
  C1, as amended. Take a target that exists locally with role \<open>R\<close>, or does not exist
  (\<open>target\<close> is what the local store holds for the email). If the policy permits the
  request, the directory look-ups succeed, the clearing of the grants returns, the local
  store accepts the update and both assignment requests are rejected, then after the
  clearing the run makes exactly these calls: the look-up of the display name, the upsert
  with the requested role, the two assignment requests with one sleep of 1000 ms between
  them, and the compensating write, which is the upsert with \<open>R\<close>, or the delete for a
  target that did not exist. No other principal changes, nothing is audited, nobody is
  marked offline and no grant is added. If the local store accepts the compensating
  write, \<^verbatim>\<open>changeUserRole\<close> returns \<^verbatim>\<open>ROLLBACK_REQUIRED\<close> with \<^verbatim>\<open>azureADUpdated = false\<close>,
  \<^verbatim>\<open>rollbackRequired = true\<close> and \<^verbatim>\<open>previousRole = R\<close> (undefined for an absent target), and
  the local principal is as it was before except for the time of its role change, or is
  absent again. If the local store rejects the compensating write, the error of that
  write is thrown and the local principal keeps the requested role.
\<close>

theorem rollback_restores_previous_role:
  assumes permit: "policyPermits currentUser request target"
    and tgt: "users w (toLowerCase (req_userEmail request)) = target"
    and req: "req_newRole request = Some r"
    and rd: "\<not> dbReadFails env"
    and dir: "directoryResolves env (req_userEmail request) adId token spId"
    and clear: "map_option fst (removeAllAppRolesFromPrincipalOnSp env
                  (resolved (req_userEmail request) w) token spId adId) = Some (Inr removed)"
    and updated: "\<not> dbWriteFails env (dbWrites w)"
    and assign: "assignFails env (posts w) \<and> assignFails env (Suc (posts w))"
  shows "\<exists>w5 out w'.
     removeAllAppRolesFromPrincipalOnSp env (resolved (req_userEmail request) w) token spId adId =
       Some (Inr removed, w5) \<and>
     changeUserRole env w request currentUser = Some (out, w') \<and>
     trace w' = trace w5 @
       [HttpGet (''https://graph.microsoft.com/v1.0/users/'' @ adId),
        StoreUpsert (req_userEmail request) r,
        HttpPost (appRoleAssignedToUrl spId) adId (roleIdOf env r), Sleep 1000,
        HttpPost (appRoleAssignedToUrl spId) adId (roleIdOf env r),
        (case target of None \<Rightarrow> StoreDelete (req_userEmail request)
         | Some t \<Rightarrow> StoreUpsert (req_userEmail request) (role t))] \<and>
     dbWrites w' = dbWrites w + 2 \<and> posts w' = posts w + 2 \<and> now w' = now w + 1000 \<and>
     grants w' = grants w5 \<and>
     (\<forall>k. k \<noteq> toLowerCase (req_userEmail request) \<longrightarrow> users w' k = users w k) \<and>
     auditLog w' = auditLog w \<and> offline w' = offline w \<and>
     (if dbWriteFails env (Suc (dbWrites w))
      then out = Inl (Error ''database write failed'') \<and>
           map_option role (users w' (toLowerCase (req_userEmail request))) = Some r
      else out = Inr \<lparr>message = AZURE_AD_UPDATE_FAILED, status = ROLLBACK_REQUIRED,
                      userEmail = req_userEmail request,
                      previousRole = map_option role target, newRole = Some r,
                      azureADUpdated = False, rollbackRequired = True\<rparr> \<and>
           users w' (toLowerCase (req_userEmail request)) =
             map_option (\<lambda>t. t\<lparr>roleChangedAt := now w + 1000\<rparr>) target)"
proof -
  from clear obtain w5 where
    c: "removeAllAppRolesFromPrincipalOnSp env (resolved (req_userEmail request) w)
          token spId adId = Some (Inr removed, w5)"
    and f: "onlyGrantsRemoved (resolved (req_userEmail request) w) w5"
    by (rule clear_result_world)
  from f have same: "users w5 = users w" "auditLog w5 = auditLog w" "offline w5 = offline w"
      "now w5 = now w" "dbWrites w5 = dbWrites w" "posts w5 = posts w"
    by (simp_all add: onlyGrantsRemoved_def resolved_def)
  let ?run = "changeUserRole_update env w5 (req_userEmail request) r target currentUser
                token spId adId"
  have run: "changeUserRole env w request currentUser = Some ?run"
    using changeUserRole_prefix [OF permit [folded tgt] rd dir] c req tgt by simp
  obtain out w' where r': "?run = (out, w')" by (cases ?run)
  have facts: "case ?run of (out, w') \<Rightarrow>
     trace w' = trace w5 @
       [HttpGet (''https://graph.microsoft.com/v1.0/users/'' @ adId),
        StoreUpsert (req_userEmail request) r,
        HttpPost (appRoleAssignedToUrl spId) adId (roleIdOf env r), Sleep 1000,
        HttpPost (appRoleAssignedToUrl spId) adId (roleIdOf env r),
        (case target of None \<Rightarrow> StoreDelete (req_userEmail request)
         | Some t \<Rightarrow> StoreUpsert (req_userEmail request) (role t))] \<and>
     dbWrites w' = dbWrites w5 + 2 \<and> posts w' = posts w5 + 2 \<and> now w' = now w5 + 1000 \<and>
     grants w' = grants w5 \<and>
     (\<forall>k. k \<noteq> toLowerCase (req_userEmail request) \<longrightarrow> users w' k = users w5 k) \<and>
     auditLog w' = auditLog w5 \<and> offline w' = offline w5 \<and>
     (if dbWriteFails env (Suc (dbWrites w5))
      then out = Inl (Error ''database write failed'') \<and>
           map_option role (users w' (toLowerCase (req_userEmail request))) = Some r
      else out = Inr (rollbackResult (req_userEmail request) (map_option role target) r) \<and>
           users w' (toLowerCase (req_userEmail request)) =
             map_option (\<lambda>t. t\<lparr>roleChangedAt := now w5 + 1000\<rparr>) target)"
    by (rule update_rollback_run) (use updated assign same tgt in simp_all)
  from run r' have run': "changeUserRole env w request currentUser = Some (out, w')"
    by simp
  from facts r' same have final:
    "trace w' = trace w5 @
       [HttpGet (''https://graph.microsoft.com/v1.0/users/'' @ adId),
        StoreUpsert (req_userEmail request) r,
        HttpPost (appRoleAssignedToUrl spId) adId (roleIdOf env r), Sleep 1000,
        HttpPost (appRoleAssignedToUrl spId) adId (roleIdOf env r),
        (case target of None \<Rightarrow> StoreDelete (req_userEmail request)
         | Some t \<Rightarrow> StoreUpsert (req_userEmail request) (role t))] \<and>
     dbWrites w' = dbWrites w + 2 \<and> posts w' = posts w + 2 \<and> now w' = now w + 1000 \<and>
     grants w' = grants w5 \<and>
     (\<forall>k. k \<noteq> toLowerCase (req_userEmail request) \<longrightarrow> users w' k = users w k) \<and>
     auditLog w' = auditLog w \<and> offline w' = offline w \<and>
     (if dbWriteFails env (Suc (dbWrites w))
      then out = Inl (Error ''database write failed'') \<and>
           map_option role (users w' (toLowerCase (req_userEmail request))) = Some r
      else out = Inr \<lparr>message = AZURE_AD_UPDATE_FAILED, status = ROLLBACK_REQUIRED,
                      userEmail = req_userEmail request,
                      previousRole = map_option role target, newRole = Some r,
                      azureADUpdated = False, rollbackRequired = True\<rparr> \<and>
           users w' (toLowerCase (req_userEmail request)) =
             map_option (\<lambda>t. t\<lparr>roleChangedAt := now w + 1000\<rparr>) target)"
    by (simp add: rollbackResult_def)
  show ?thesis
    by (rule exI [of _ w5], rule exI [of _ out], rule exI [of _ w'])
       (rule conjI [OF c conjI [OF run' final]])
qed

theorem rollback_restores_previous_role_witness:
  "(\<exists>w'. changeUserRole (env0\<lparr>assignFails := (\<lambda>_. True)\<rparr>) w0
            \<lparr>req_userEmail = ''d@x.com'', req_newRole = Some Admin\<rparr> root =
          Some (Inr \<lparr>message = AZURE_AD_UPDATE_FAILED, status = ROLLBACK_REQUIRED,
                     userEmail = ''d@x.com'', previousRole = Some Employee,
                     newRole = Some Admin, azureADUpdated = False, rollbackRequired = True\<rparr>,
                w') \<and>
         users w' ''d@x.com'' = Some (dee\<lparr>roleChangedAt := 1000\<rparr>) \<and>
         dbWrites w' = 2 \<and> posts w' = 2) \<and>
   (\<exists>w'. changeUserRole (env0\<lparr>assignFails := (\<lambda>_. True)\<rparr>) w0
            \<lparr>req_userEmail = ''n@x.com'', req_newRole = Some Employee\<rparr> root =
          Some (Inr \<lparr>message = AZURE_AD_UPDATE_FAILED, status = ROLLBACK_REQUIRED,
                     userEmail = ''n@x.com'', previousRole = None,
                     newRole = Some Employee, azureADUpdated = False,
                     rollbackRequired = True\<rparr>,
                w') \<and>
         users w' ''n@x.com'' = None \<and> dbWrites w' = 2 \<and> posts w' = 2) \<and>
   (\<exists>w'. changeUserRole (env0\<lparr>assignFails := (\<lambda>_. True), dbWriteFails := (\<lambda>k. k = 1)\<rparr>) w0
            \<lparr>req_userEmail = ''d@x.com'', req_newRole = Some Admin\<rparr> root =
          Some (Inl (Error ''database write failed''), w') \<and>
         map_option role (users w' ''d@x.com'') = Some Admin \<and>
         dbWrites w' = 2 \<and> posts w' = 2)"
proof -
  let ?env = "env0\<lparr>assignFails := (\<lambda>_. True)\<rparr>"
  let ?envR = "env0\<lparr>assignFails := (\<lambda>_. True), dbWriteFails := (\<lambda>k. k = 1)\<rparr>"
  let ?reqD = "\<lparr>req_userEmail = ''d@x.com'', req_newRole = Some Admin\<rparr>"
  let ?reqN = "\<lparr>req_userEmail = ''n@x.com'', req_newRole = Some Employee\<rparr>"
  have lower: "toLowerCase ''d@x.com'' = ''d@x.com''" "toLowerCase ''n@x.com'' = ''n@x.com''"
    by (simp_all add: toLowerCase_def toLowerChar_def)
  have start: "dbWrites w0 = 0" "posts w0 = 0" "now w0 = 0"
    by (simp_all add: w0_def)
  have permitD: "policyPermits root ?reqD (Some dee)"
    by (simp add: policyPermits_def validateNotSelfChange_def
          validateSupervisorRoleAssignment_def validateTargetUser_def andThen_def
          validateNotSuperAdminChange_def validateCallerPermissions_def validateRoleChange_def
          root_def dee_def)
  have permitN: "policyPermits root ?reqN None"
    by (simp add: policyPermits_def validateNotSelfChange_def
          validateSupervisorRoleAssignment_def validateTargetUser_def root_def)
  have tgtD: "users w0 (toLowerCase (req_userEmail ?reqD)) = Some dee"
    by (simp add: lower w0_def)
  have tgtN: "users w0 (toLowerCase (req_userEmail ?reqN)) = None"
    by (simp add: lower w0_def)
  have rd: "\<not> dbReadFails ?env" and rdR: "\<not> dbReadFails ?envR" by (simp_all add: env0_def)
  have dirD: "directoryResolves ?env (req_userEmail ?reqD) ''oid-d'' ''tok'' ''sp''"
    by (simp add: directoryResolves_def env0_def lower)
  have dirN: "directoryResolves ?env (req_userEmail ?reqN) ''oid-n'' ''tok'' ''sp''"
    by (simp add: directoryResolves_def env0_def lower)
  have dirR: "directoryResolves ?envR (req_userEmail ?reqD) ''oid-d'' ''tok'' ''sp''"
    by (simp add: directoryResolves_def env0_def lower)
  have clearD: "map_option fst (removeAllAppRolesFromPrincipalOnSp ?env
                  (resolved (req_userEmail ?reqD) w0) ''tok'' ''sp'' ''oid-d'') = Some (Inr 1)"
    by code_simp
  have clearN: "map_option fst (removeAllAppRolesFromPrincipalOnSp ?env
                  (resolved (req_userEmail ?reqN) w0) ''tok'' ''sp'' ''oid-n'') = Some (Inr 0)"
    by code_simp
  have clearR: "map_option fst (removeAllAppRolesFromPrincipalOnSp ?envR
                  (resolved (req_userEmail ?reqD) w0) ''tok'' ''sp'' ''oid-d'') = Some (Inr 1)"
    by code_simp
  have updated: "\<not> dbWriteFails ?env (dbWrites w0)" and updatedR: "\<not> dbWriteFails ?envR (dbWrites w0)"
    by (simp_all add: env0_def start)
  have assign: "assignFails ?env (posts w0) \<and> assignFails ?env (Suc (posts w0))"
    and assignR: "assignFails ?envR (posts w0) \<and> assignFails ?envR (Suc (posts w0))"
    by simp_all
  have second: "\<not> dbWriteFails ?env (Suc (dbWrites w0))" "dbWriteFails ?envR (Suc (dbWrites w0))"
    by (simp_all add: env0_def start)
  have reqD: "req_newRole ?reqD = Some Admin" and reqN: "req_newRole ?reqN = Some Employee"
    by simp_all
  note runD = rollback_restores_previous_role
         [OF permitD tgtD reqD rd dirD clearD updated assign]
  note runN = rollback_restores_previous_role
         [OF permitN tgtN reqN rd dirN clearN updated assign]
  note runR = rollback_restores_previous_role
         [OF permitD tgtD reqD rdR dirR clearR updatedR assignR]
  from runD second(1) have d: "\<exists>w'. changeUserRole ?env w0 ?reqD root =
          Some (Inr \<lparr>message = AZURE_AD_UPDATE_FAILED, status = ROLLBACK_REQUIRED,
                     userEmail = ''d@x.com'', previousRole = Some Employee,
                     newRole = Some Admin, azureADUpdated = False, rollbackRequired = True\<rparr>,
                w') \<and>
         users w' ''d@x.com'' = Some (dee\<lparr>roleChangedAt := 1000\<rparr>) \<and>
         dbWrites w' = 2 \<and> posts w' = 2"
    apply (elim exE conjE)
    subgoal for w5 out w'
      by (rule exI [of _ w']) (simp add: lower start dee_def)
    done
  from runN second(1) have n: "\<exists>w'. changeUserRole ?env w0 ?reqN root =
          Some (Inr \<lparr>message = AZURE_AD_UPDATE_FAILED, status = ROLLBACK_REQUIRED,
                     userEmail = ''n@x.com'', previousRole = None,
                     newRole = Some Employee, azureADUpdated = False,
                     rollbackRequired = True\<rparr>,
                w') \<and>
         users w' ''n@x.com'' = None \<and> dbWrites w' = 2 \<and> posts w' = 2"
    apply (elim exE conjE)
    subgoal for w5 out w'
      by (rule exI [of _ w']) (simp add: lower start)
    done
  from runR second(2) have r: "\<exists>w'. changeUserRole ?envR w0 ?reqD root =
          Some (Inl (Error ''database write failed''), w') \<and>
         map_option role (users w' ''d@x.com'') = Some Admin \<and>
         dbWrites w' = 2 \<and> posts w' = 2"
    apply (elim exE conjE)
    subgoal for w5 out w'
      by (rule exI [of _ w']) (simp add: lower start)
    done
  from d n r show ?thesis by blast
qed

section \<open>Failures after the local store has been updated\<close>

text \<open>
  C2, as the spec states it, does not hold: no call of \<^verbatim>\<open>changeUserRole\<close> is guarded by a
  \<^verbatim>\<open>try\<close>, except the assignment attempts inside the retry. With a directory that
  accepts the assignment and an audit log that rejects its write, the SuperAdmin's
  change of \<^verbatim>\<open>d@x.com\<close> to Admin ends in the thrown error of the audit write, although the
  local store holds the new role and the directory the new grant.
\<close>

theorem audit_failure_is_thrown_counterexample:
  "map_option (\<lambda>(out, w'). (out, map_option role (users w' ''d@x.com''),
                  map appRoleId (filter (\<lambda>g. principalId g = ''oid-d'') (grants w'))))
     (changeUserRole (env0\<lparr>auditFails := True\<rparr>) w0
        \<lparr>req_userEmail = ''d@x.com'', req_newRole = Some Admin\<rparr> root) =
   Some (Inl (Error ''audit write failed''), Some Admin, [Some ''adm-role''])"
  by code_simp

text \<open>
  C2, as amended. Once the update of the local store has been accepted, the outcome of
  \<^verbatim>\<open>changeUserRole\<close> is determined as follows. If both assignment requests are rejected,
  the result is \<^verbatim>\<open>ROLLBACK_REQUIRED\<close> when the compensating write is accepted, and the error
  thrown by that write when it is not. Otherwise the directory was updated, and the
  result is the error thrown by the audit write if that fails, else the error thrown by
  the presence call if that fails, else success. So the exhausted retry is the only
  failure after the mutation that becomes a defined outcome; the other three reach the
  caller as the exceptions they are.
\<close>

theorem post_mutation_outcomes:
  assumes permit: "policyPermits currentUser request target"
    and tgt: "users w (toLowerCase (req_userEmail request)) = target"
    and req: "req_newRole request = Some r"
    and rd: "\<not> dbReadFails env"
    and dir: "directoryResolves env (req_userEmail request) adId token spId"
    and clear: "map_option fst (removeAllAppRolesFromPrincipalOnSp env
                  (resolved (req_userEmail request) w) token spId adId) = Some (Inr removed)"
    and mutated: "\<not> dbWriteFails env (dbWrites w)"
  shows "map_option fst (changeUserRole env w request currentUser) =
     Some (if assignFails env (posts w) \<and> assignFails env (Suc (posts w))
           then (if dbWriteFails env (Suc (dbWrites w))
                 then Inl (Error ''database write failed'')
                 else Inr \<lparr>message = AZURE_AD_UPDATE_FAILED, status = ROLLBACK_REQUIRED,
                           userEmail = req_userEmail request,
                           previousRole = map_option role target, newRole = Some r,
                           azureADUpdated = False, rollbackRequired = True\<rparr>)
           else if auditFails env then Inl (Error ''audit write failed'')
           else if presenceFails env then Inl (Error ''presence update failed'')
           else Inr \<lparr>message = ROLE_CHANGED_SUCCESSFULLY, status = SUCCESS,
                     userEmail = req_userEmail request,
                     previousRole = map_option role target, newRole = Some r,
                     azureADUpdated = True, rollbackRequired = False\<rparr>)"
proof -
  from clear obtain w5 where
    c: "removeAllAppRolesFromPrincipalOnSp env (resolved (req_userEmail request) w)
          token spId adId = Some (Inr removed, w5)"
    and f: "onlyGrantsRemoved (resolved (req_userEmail request) w) w5"
    by (rule clear_result_world)
  from f have same: "dbWrites w5 = dbWrites w" "posts w5 = posts w"
    by (simp_all add: onlyGrantsRemoved_def resolved_def)
  have "changeUserRole env w request currentUser =
      Some (changeUserRole_update env w5 (req_userEmail request) r target currentUser
              token spId adId)"
    using changeUserRole_prefix [OF permit [folded tgt] rd dir] c req tgt by simp
  with update_outcome [of env w5] mutated same show ?thesis
    by (simp add: rollbackResult_def successResult_def)
qed

theorem post_mutation_outcomes_witness:
  "map_option fst (changeUserRole (env0\<lparr>auditFails := True\<rparr>) w0
      \<lparr>req_userEmail = ''d@x.com'', req_newRole = Some Admin\<rparr> root) =
     Some (Inl (Error ''audit write failed'')) \<and>
   map_option fst (changeUserRole (env0\<lparr>presenceFails := True\<rparr>) w0
      \<lparr>req_userEmail = ''d@x.com'', req_newRole = Some Admin\<rparr> root) =
     Some (Inl (Error ''presence update failed'')) \<and>
   map_option fst (changeUserRole
      (env0\<lparr>assignFails := (\<lambda>_. True), dbWriteFails := (\<lambda>k. k = 1)\<rparr>) w0
      \<lparr>req_userEmail = ''d@x.com'', req_newRole = Some Admin\<rparr> root) =
     Some (Inl (Error ''database write failed'')) \<and>
   map_option fst (changeUserRole (env0\<lparr>assignFails := (\<lambda>_. True)\<rparr>) w0
      \<lparr>req_userEmail = ''d@x.com'', req_newRole = Some Admin\<rparr> root) =
     Some (Inr \<lparr>message = AZURE_AD_UPDATE_FAILED, status = ROLLBACK_REQUIRED,
                userEmail = ''d@x.com'', previousRole = Some Employee,
                newRole = Some Admin, azureADUpdated = False, rollbackRequired = True\<rparr>)"
proof -
  let ?req = "\<lparr>req_userEmail = ''d@x.com'', req_newRole = Some Admin\<rparr>"
  have lower: "toLowerCase ''d@x.com'' = ''d@x.com''"
    by (simp add: toLowerCase_def toLowerChar_def)
  have permit: "policyPermits root ?req (Some dee)"
    by (simp add: policyPermits_def validateNotSelfChange_def
          validateSupervisorRoleAssignment_def validateTargetUser_def andThen_def
          validateNotSuperAdminChange_def validateCallerPermissions_def validateRoleChange_def
          root_def dee_def)
  have tgt: "users w0 (toLowerCase (req_userEmail ?req)) = Some dee"
    by (simp add: lower w0_def)
  let ?envA = "env0\<lparr>auditFails := True\<rparr>"
  have dirA: "directoryResolves ?envA (req_userEmail ?req) ''oid-d'' ''tok'' ''sp''"
    by (simp add: directoryResolves_def env0_def lower)
  have clearA: "map_option fst (removeAllAppRolesFromPrincipalOnSp ?envA
                   (resolved (req_userEmail ?req) w0) ''tok'' ''sp'' ''oid-d'') = Some (Inr 1)"
    by code_simp
  have rdA: "\<not> dbReadFails ?envA" and mutA: "\<not> dbWriteFails ?envA (dbWrites w0)"
    by (simp_all add: env0_def w0_def)
  have reqA: "req_newRole ?req = Some Admin" by simp
  note runA = post_mutation_outcomes [OF permit tgt reqA rdA dirA clearA mutA]
  let ?envP = "env0\<lparr>presenceFails := True\<rparr>"
  have dirP: "directoryResolves ?envP (req_userEmail ?req) ''oid-d'' ''tok'' ''sp''"
    by (simp add: directoryResolves_def env0_def lower)
  have clearP: "map_option fst (removeAllAppRolesFromPrincipalOnSp ?envP
                   (resolved (req_userEmail ?req) w0) ''tok'' ''sp'' ''oid-d'') = Some (Inr 1)"
    by code_simp
  have rdP: "\<not> dbReadFails ?envP" and mutP: "\<not> dbWriteFails ?envP (dbWrites w0)"
    by (simp_all add: env0_def w0_def)
  have reqP: "req_newRole ?req = Some Admin" by simp
  note runP = post_mutation_outcomes [OF permit tgt reqP rdP dirP clearP mutP]
  let ?envR = "env0\<lparr>assignFails := (\<lambda>_. True), dbWriteFails := (\<lambda>k. k = 1)\<rparr>"
  have dirR: "directoryResolves ?envR (req_userEmail ?req) ''oid-d'' ''tok'' ''sp''"
    by (simp add: directoryResolves_def env0_def lower)
  have clearR: "map_option fst (removeAllAppRolesFromPrincipalOnSp ?envR
                   (resolved (req_userEmail ?req) w0) ''tok'' ''sp'' ''oid-d'') = Some (Inr 1)"
    by code_simp
  have rdR: "\<not> dbReadFails ?envR" and mutR: "\<not> dbWriteFails ?envR (dbWrites w0)"
    by (simp_all add: env0_def w0_def)
  have reqR: "req_newRole ?req = Some Admin" by simp
  note runR = post_mutation_outcomes [OF permit tgt reqR rdR dirR clearR mutR]
  let ?envF = "env0\<lparr>assignFails := (\<lambda>_. True)\<rparr>"
  have dirF: "directoryResolves ?envF (req_userEmail ?req) ''oid-d'' ''tok'' ''sp''"
    by (simp add: directoryResolves_def env0_def lower)
  have clearF: "map_option fst (removeAllAppRolesFromPrincipalOnSp ?envF
                   (resolved (req_userEmail ?req) w0) ''tok'' ''sp'' ''oid-d'') = Some (Inr 1)"
    by code_simp
  have rdF: "\<not> dbReadFails ?envF" and mutF: "\<not> dbWriteFails ?envF (dbWrites w0)"
    by (simp_all add: env0_def w0_def)
  have reqF: "req_newRole ?req = Some Admin" by simp
  note runF = post_mutation_outcomes [OF permit tgt reqF rdF dirF clearF mutF]
  from runA runP runR runF show ?thesis
    by (simp add: env0_def w0_def dee_def)
qed

section \<open>Audit entries\<close>

text \<open>
  C5, as the spec states it, does not hold for every removal: the audit entry of a
  removal is written inside \<^verbatim>\<open>if (targetUser)\<close>. Removing \<^verbatim>\<open>n@x.com\<close>, who has an account in
  the directory and no local principal, succeeds and leaves the audit log empty.
\<close>

theorem removal_of_absent_principal_not_audited_counterexample:
  "map_option (\<lambda>(out, w'). (out, auditLog w'))
     (changeUserRole env0 w0 \<lparr>req_userEmail = ''n@x.com'', req_newRole = None\<rparr> root) =
   Some (Inr \<lparr>message = USER_DELETED_SUCCESSFULLY, status = SUCCESS, userEmail = ''n@x.com'',
              previousRole = None, newRole = None, azureADUpdated = True,
              rollbackRequired = False\<rparr>, []) \<and>
   users w0 (toLowerCase ''n@x.com'') = None"
  by code_simp

text \<open>
  C5, as amended. Whenever \<^verbatim>\<open>changeUserRole\<close> returns with status \<^verbatim>\<open>SUCCESS\<close>: for a role change
  the audit log has grown by exactly one entry, a \<^verbatim>\<open>ROLE_CHANGE\<close> whose \<^verbatim>\<open>dataAfter\<close> is the
  updated principal, as the local store now holds it, and whose \<^verbatim>\<open>dataBefore\<close> is the
  principal as it was before, or JSON null if there was none; for the removal of an
  existing local principal the log has grown by exactly one entry, a \<^verbatim>\<open>DELETE\<close> whose
  \<^verbatim>\<open>dataBefore\<close> is the principal as it was and whose \<^verbatim>\<open>dataAfter\<close> is not set; for the
  removal of a target without a local principal no entry is written.
\<close>

theorem audit_completeness:
  assumes run: "changeUserRole env w request currentUser = Some (Inr res, w')"
    and committed: "status res = SUCCESS"
  shows "case req_newRole request of
       Some r \<Rightarrow>
         (\<exists>u. users w' (toLowerCase (req_userEmail request)) = Some u \<and> role u = r \<and>
              auditLog w' = auditLog w @
                [\<lparr>log_entity = USER, log_entityId = user_id u, log_action = ROLE_CHANGE,
                  log_changedBy = user_id currentUser,
                  log_dataBefore =
                    (case users w (toLowerCase (req_userEmail request)) of
                       None \<Rightarrow> JsonNull | Some t \<Rightarrow> Json t),
                  log_dataAfter = Json u\<rparr>])
     | None \<Rightarrow>
         (case users w (toLowerCase (req_userEmail request)) of
            Some t \<Rightarrow>
              users w' (toLowerCase (req_userEmail request)) = None \<and>
              auditLog w' = auditLog w @
                [\<lparr>log_entity = USER, log_entityId = user_id t, log_action = DELETE,
                  log_changedBy = user_id currentUser, log_dataBefore = Json t,
                  log_dataAfter = Unset\<rparr>]
          | None \<Rightarrow> auditLog w' = auditLog w)"
proof -
  from changeUserRole_cases [OF run] obtain w5 adId token spId where
    f: "onlyGrantsRemoved w w5" and
    phase: "case req_newRole request of
           None \<Rightarrow> changeUserRole_delete env w5 (req_userEmail request)
                     (users w (toLowerCase (req_userEmail request))) currentUser = (Inr res, w')
         | Some r \<Rightarrow> changeUserRole_update env w5 (req_userEmail request) r
                       (users w (toLowerCase (req_userEmail request))) currentUser
                       token spId adId = (Inr res, w')"
    by auto
  from f have same: "users w5 = users w" "auditLog w5 = auditLog w"
    by (simp_all add: onlyGrantsRemoved_def)
  show ?thesis
  proof (cases "req_newRole request")
    case None
    with phase have "changeUserRole_delete env w5 (req_userEmail request)
        (users w (toLowerCase (req_userEmail request))) currentUser = (Inr res, w')" by simp
    from delete_audit [OF this] same None show ?thesis
      by (auto split: option.splits)
  next
    case (Some r)
    with phase have "changeUserRole_update env w5 (req_userEmail request) r
        (users w (toLowerCase (req_userEmail request))) currentUser token spId adId =
        (Inr res, w')" by simp
    from update_success_audit [OF this committed] same Some show ?thesis
      by simp
  qed
qed

theorem audit_completeness_witness:
  "(\<exists>w' u. changeUserRole env0 w0 \<lparr>req_userEmail = ''d@x.com'', req_newRole = Some Admin\<rparr> root =
          Some (Inr \<lparr>message = ROLE_CHANGED_SUCCESSFULLY, status = SUCCESS,
                     userEmail = ''d@x.com'', previousRole = Some Employee,
                     newRole = Some Admin, azureADUpdated = True,
                     rollbackRequired = False\<rparr>, w') \<and>
          users w' ''d@x.com'' = Some u \<and> role u = Admin \<and>
          auditLog w' =
            [\<lparr>log_entity = USER, log_entityId = user_id u, log_action = ROLE_CHANGE,
              log_changedBy = ''u0'', log_dataBefore = Json dee, log_dataAfter = Json u\<rparr>]) \<and>
   (\<exists>w'. changeUserRole env0 w0 \<lparr>req_userEmail = ''d@x.com'', req_newRole = None\<rparr> root =
          Some (Inr \<lparr>message = USER_DELETED_SUCCESSFULLY, status = SUCCESS,
                     userEmail = ''d@x.com'', previousRole = Some Employee,
                     newRole = None, azureADUpdated = True, rollbackRequired = False\<rparr>, w') \<and>
          auditLog w' =
            [\<lparr>log_entity = USER, log_entityId = ''u1'', log_action = DELETE,
              log_changedBy = ''u0'', log_dataBefore = Json dee, log_dataAfter = Unset\<rparr>])"
proof -
  let ?change = "\<lparr>req_userEmail = ''d@x.com'', req_newRole = Some Admin\<rparr>"
  let ?remove = "\<lparr>req_userEmail = ''d@x.com'', req_newRole = None\<rparr>"
  let ?changed = "\<lparr>message = ROLE_CHANGED_SUCCESSFULLY, status = SUCCESS,
                     userEmail = ''d@x.com'', previousRole = Some Employee,
                     newRole = Some Admin, azureADUpdated = True,
                     rollbackRequired = False\<rparr>"
  let ?removed = "\<lparr>message = USER_DELETED_SUCCESSFULLY, status = SUCCESS,
                     userEmail = ''d@x.com'', previousRole = Some Employee,
                     newRole = None, azureADUpdated = True, rollbackRequired = False\<rparr>"
  have lower: "toLowerCase ''d@x.com'' = ''d@x.com''"
    by (simp add: toLowerCase_def toLowerChar_def)
  have "map_option fst (changeUserRole env0 w0 ?change root) = Some (Inr ?changed)"
    by code_simp
  then obtain w1 where run1: "changeUserRole env0 w0 ?change root = Some (Inr ?changed, w1)"
    by (cases "changeUserRole env0 w0 ?change root") auto
  have "map_option fst (changeUserRole env0 w0 ?remove root) = Some (Inr ?removed)"
    by code_simp
  then obtain w2 where run2: "changeUserRole env0 w0 ?remove root = Some (Inr ?removed, w2)"
    by (cases "changeUserRole env0 w0 ?remove root") auto
  have ids: "user_id dee = ''u1''" "user_id root = ''u0''"
    by (simp_all add: dee_def root_def)
  have a1: "\<exists>u. users w1 ''d@x.com'' = Some u \<and> role u = Admin \<and>
          auditLog w1 =
            [\<lparr>log_entity = USER, log_entityId = user_id u, log_action = ROLE_CHANGE,
              log_changedBy = ''u0'', log_dataBefore = Json dee, log_dataAfter = Json u\<rparr>]"
    using audit_completeness [OF run1] by (simp add: lower w0_def ids)
  have a2: "auditLog w2 =
            [\<lparr>log_entity = USER, log_entityId = ''u1'', log_action = DELETE,
              log_changedBy = ''u0'', log_dataBefore = Json dee, log_dataAfter = Unset\<rparr>]"
    using audit_completeness [OF run2] by (simp add: lower w0_def ids)
  from a1 a2 run1 run2 show ?thesis by blast
qed

section \<open>The clearing of the grants comes first\<close>




section \<open>The order of the policy checks\<close>

lemma lower_examples:
  "toLowerCase ''d@x.com'' = ''d@x.com''" "toLowerCase ''a@x.com'' = ''a@x.com''"
  "toLowerCase ''s@x.com'' = ''s@x.com''" "toLowerCase ''r@x.com'' = ''r@x.com''"
  "toLowerCase ''n@x.com'' = ''n@x.com''" "toLowerCase ''A@x.com'' = ''a@x.com''"
  by (simp_all add: toLowerCase_def toLowerChar_def)

text \<open>
  C3, as the spec states it, does not hold: the Supervisor check of step 1 runs before
  the target is looked up, so it wins over the protection of a SuperAdmin target. A
  Supervisor who asks to make the SuperAdmin \<^verbatim>\<open>r@x.com\<close> an Admin is denied with
  \<^verbatim>\<open>SUPERVISOR_LIMITED_ACCESS\<close>.
\<close>

theorem supervisor_check_precedes_superadmin_protection_counterexample:
  "changeUserRole env0 w0 \<lparr>req_userEmail = ''r@x.com'', req_newRole = Some Admin\<rparr> sam =
     Some (Inl (ExpectedError SUPERVISOR_LIMITED_ACCESS 403), w0) \<and>
   map_option role (users w0 (toLowerCase ''r@x.com'')) = Some SuperAdmin"
  by (simp add: changeUserRole_def andThen_def validateNotSelfChange_def
        validateSupervisorRoleAssignment_def sam_def w0_def root_def lower_examples Let_def)

text \<open>
  C3, as amended. If the target's current local role is SuperAdmin and the read of the
  local store is answered, \<^verbatim>\<open>changeUserRole\<close> always returns a denial, whatever the actor's
  role and the requested role, and has written nothing. The reason is
  \<^verbatim>\<open>CANNOT_CHANGE_SUPERADMIN\<close>, except that two checks come first and win: an actor whose
  email equals the target email is denied with \<^verbatim>\<open>CANNOT_CHANGE_OWN_ROLE\<close>, and a Supervisor
  requesting anything but Employee is denied with \<^verbatim>\<open>SUPERVISOR_LIMITED_ACCESS\<close>; these two
  denials happen before the local store is read.
\<close>

theorem superadmin_target_always_denied:
  assumes "users w (toLowerCase (req_userEmail request)) = Some t"
    and "role t = SuperAdmin"
    and "\<not> dbReadFails env"
  shows "changeUserRole env w request currentUser =
     Some (if email currentUser = req_userEmail request
           then (Inl (ExpectedError CANNOT_CHANGE_OWN_ROLE 400), w)
           else if role currentUser = Supervisor \<and> req_newRole request \<noteq> Some Employee
           then (Inl (ExpectedError SUPERVISOR_LIMITED_ACCESS 403), w)
           else (Inl (ExpectedError CANNOT_CHANGE_SUPERADMIN 400),
                 logEvent (StoreRead (req_userEmail request)) w))"
  using assms
  by (simp add: changeUserRole_def andThen_def validateNotSelfChange_def
        validateSupervisorRoleAssignment_def getUserByEmail_def validateTargetUser_def
        validateNotSuperAdminChange_def Let_def)

theorem superadmin_target_always_denied_witness:
  "changeUserRole env0 w0 \<lparr>req_userEmail = ''r@x.com'', req_newRole = Some Employee\<rparr> amy =
     Some (Inl (ExpectedError CANNOT_CHANGE_SUPERADMIN 400), logEvent (StoreRead ''r@x.com'') w0)"
  using superadmin_target_always_denied
          [where env = env0 and w = w0 and t = root and currentUser = amy
             and request = "\<lparr>req_userEmail = ''r@x.com'', req_newRole = Some Employee\<rparr>"]
  by (simp add: w0_def root_def amy_def env0_def lower_examples)

text \<open>
  C8, as the spec states it, does not hold for a Supervisor who names his own email: the
  self check is the first statement of \<^verbatim>\<open>changeUserRole\<close>, and its reason wins.
\<close>

theorem self_check_precedes_supervisor_scope_counterexample:
  "changeUserRole env0 w0 \<lparr>req_userEmail = ''s@x.com'', req_newRole = Some Admin\<rparr> sam =
     Some (Inl (ExpectedError CANNOT_CHANGE_OWN_ROLE 400), w0) \<and>
   role sam = Supervisor"
  by (simp add: changeUserRole_def andThen_def validateNotSelfChange_def sam_def Let_def)

text \<open>
  C8, as amended. For a Supervisor acting on an email other than his own, every
  requested role other than Employee, the removal included, is denied with
  \<^verbatim>\<open>SUPERVISOR_LIMITED_ACCESS\<close> before anything is read or written (the world is returned
  as it was). When the requested role is Employee, both Supervisor checks pass whatever
  the target's current role is, and the policy as a whole permits the request for a new
  principal and for a target that is an Admin, a Supervisor or a ContactManager: a
  Supervisor may demote an Admin to Employee.
\<close>

theorem supervisor_scope:
  assumes "role currentUser = Supervisor"
    and "email currentUser \<noteq> req_userEmail request"
  shows "(req_newRole request \<noteq> Some Employee \<longrightarrow>
            changeUserRole env w request currentUser =
              Some (Inl (ExpectedError SUPERVISOR_LIMITED_ACCESS 403), w)) \<and>
     (req_newRole request = Some Employee \<longrightarrow>
        validateSupervisorRoleAssignment (role currentUser) (req_newRole request) = Inr () \<and>
        (\<forall>targetRole.
           validateCallerPermissions (role currentUser) targetRole (req_newRole request) =
             Inr ()) \<and>
        policyPermits currentUser request None \<and>
        (\<forall>t. role t = Admin \<or> role t = Supervisor \<or> role t = ContactManager \<longrightarrow>
           policyPermits currentUser request (Some t)))"
  using assms
  by (auto simp add: changeUserRole_def andThen_def validateNotSelfChange_def
        validateSupervisorRoleAssignment_def validateCallerPermissions_def policyPermits_def
        validateTargetUser_def validateNotSuperAdminChange_def validateRoleChange_def Let_def)

theorem supervisor_scope_witness:
  "changeUserRole env0 w0 \<lparr>req_userEmail = ''d@x.com'', req_newRole = None\<rparr> sam =
     Some (Inl (ExpectedError SUPERVISOR_LIMITED_ACCESS 403), w0) \<and>
   policyPermits sam \<lparr>req_userEmail = ''a@x.com'', req_newRole = Some Employee\<rparr> (Some amy) \<and>
   users w0 (toLowerCase ''a@x.com'') = Some amy \<and> role amy = Admin \<and>
   map_option fst
     (changeUserRole env0 w0 \<lparr>req_userEmail = ''a@x.com'', req_newRole = Some Employee\<rparr> sam) =
     Some (Inr \<lparr>message = ROLE_CHANGED_SUCCESSFULLY, status = SUCCESS, userEmail = ''a@x.com'',
                previousRole = Some Admin, newRole = Some Employee, azureADUpdated = True,
                rollbackRequired = False\<rparr>)"
proof -
  have run: "map_option fst
     (changeUserRole env0 w0 \<lparr>req_userEmail = ''a@x.com'', req_newRole = Some Employee\<rparr> sam) =
     Some (Inr \<lparr>message = ROLE_CHANGED_SUCCESSFULLY, status = SUCCESS, userEmail = ''a@x.com'',
                previousRole = Some Admin, newRole = Some Employee, azureADUpdated = True,
                rollbackRequired = False\<rparr>)"
    by code_simp
  have store: "users w0 (toLowerCase ''a@x.com'') = Some amy" "role amy = Admin"
    by (simp_all add: w0_def amy_def lower_examples)
  from supervisor_scope
         [where currentUser = sam and env = env0 and w = w0
            and request = "\<lparr>req_userEmail = ''d@x.com'', req_newRole = None\<rparr>"]
       supervisor_scope
         [where currentUser = sam and env = env0 and w = w0
            and request = "\<lparr>req_userEmail = ''a@x.com'', req_newRole = Some Employee\<rparr>"]
       run store
  show ?thesis
    by (simp add: sam_def)
qed

section \<open>The self check compares the emails exactly\<close>

text \<open>
  The part of C4 that the code keeps: a request whose target email is, character for
  character, the actor's email is denied before any call to the local store or the
  directory.
\<close>

lemma exact_self_change_denied:
  "email currentUser = req_userEmail request \<Longrightarrow>
   changeUserRole env w request currentUser =
     Some (Inl (ExpectedError CANNOT_CHANGE_OWN_ROLE 400), w)"
  by (simp add: changeUserRole_def andThen_def validateNotSelfChange_def Let_def)

text \<open>
  C4. The claim takes emails as case-insensitive, as the data model and the local store
  do, and as \<^verbatim>\<open>validateNotSelfCreation\<close> of the user-management rules does by
  lower-casing both sides. \<^verbatim>\<open>validateNotSelfChange\<close> compares with \<^verbatim>\<open>===\<close>. The Admin
  \<^verbatim>\<open>a@x.com\<close> who sends \<^verbatim>\<open>A@x.com\<close> as the target passes the self check, is found in the local
  store as the target, and has changed her own role to Employee when the call returns.
\<close>

theorem self_change_by_letter_case:
  "toLowerCase (email amy) = toLowerCase ''A@x.com'' \<and>
   validateNotSelfCreation (email amy) ''A@x.com'' =
     Inl (ExpectedError ''Cannot create yourself'' 400) \<and>
   validateNotSelfChange amy ''A@x.com'' = Inr () \<and>
   map_option (\<lambda>(out, w'). (out, map_option role (users w' ''a@x.com''), dbWrites w'))
     (changeUserRole env0 w0 \<lparr>req_userEmail = ''A@x.com'', req_newRole = Some Employee\<rparr> amy) =
     Some (Inr \<lparr>message = ROLE_CHANGED_SUCCESSFULLY, status = SUCCESS, userEmail = ''A@x.com'',
                previousRole = Some Admin, newRole = Some Employee, azureADUpdated = True,
                rollbackRequired = False\<rparr>, Some Employee, 1)"
  by code_simp

section \<open>The role map has no entry for SuperAdmin\<close>

text \<open>
  C10. The role map of \<^verbatim>\<open>updateAzureADWithRetry\<close> has the four keys Supervisor, Admin,
  Employee and ContactManager and no other, so the look-up of SuperAdmin is \<^verbatim>\<open>undefined\<close>.
  Requests for SuperAdmin are permitted by the policy: for a SuperAdmin actor, any
  target other than the actor that is not a SuperAdmin, or not yet a principal. Every
  assignment request of such a run is sent with the undefined role id, and in every run
  of \<^verbatim>\<open>changeUserRole\<close> that requests SuperAdmin, each grant the directory holds afterwards
  was there before or has no role id: no grant of a SuperAdmin scope is ever created by
  it.
\<close>

theorem superadmin_scope_is_undefined:
  assumes run: "changeUserRole env w request currentUser = Some (out, w')"
    and req: "req_newRole request = Some SuperAdmin"
  shows "map fst (roleIdMap env) = [''Supervisor'', ''Admin'', ''Employee'', ''ContactManager''] \<and>
     map_of (roleIdMap env) (roleName SuperAdmin) = None \<and>
     roleIdOf env SuperAdmin = None \<and>
     (\<forall>actor target.
        role actor = SuperAdmin \<and> email actor \<noteq> req_userEmail request \<and>
        (\<forall>t. target = Some t \<longrightarrow> role t \<noteq> SuperAdmin) \<longrightarrow>
        policyPermits actor request target) \<and>
     (\<forall>w1 token spId adId.
        trace (snd (updateAzureADWithRetry env w1 token spId adId SuperAdmin 2)) = trace w1 @
          (if assignFails env (posts w1)
           then [HttpPost (appRoleAssignedToUrl spId) adId None, Sleep 1000,
                 HttpPost (appRoleAssignedToUrl spId) adId None]
           else [HttpPost (appRoleAssignedToUrl spId) adId None])) \<and>
     (\<forall>g \<in> set (grants w'). g \<in> set (grants w) \<or> appRoleId g = None)"
proof -
  have none: "roleIdOf env SuperAdmin = None"
    by (simp add: roleIdOf_def roleIdMap_def)
  have permits: "policyPermits actor request target"
    if "role actor = SuperAdmin" "email actor \<noteq> req_userEmail request"
       "\<forall>t. target = Some t \<longrightarrow> role t \<noteq> SuperAdmin" for actor target
    using that req
    by (cases target)
       (auto simp add: policyPermits_def validateNotSelfChange_def
          validateSupervisorRoleAssignment_def validateTargetUser_def andThen_def
          validateNotSuperAdminChange_def validateCallerPermissions_def validateRoleChange_def)
  have added: "\<forall>g \<in> set (grants w'). g \<in> set (grants w) \<or> appRoleId g = None"
    using changeUserRole_cases [OF run]
  proof (elim disjE exE conjE)
    fix e assume "onlyGrantsRemoved w w'"
    then show ?thesis by (auto simp add: onlyGrantsRemoved_def)
  next
    fix w5 adId token spId removed
    assume f: "onlyGrantsRemoved w w5"
      and phase: "case req_newRole request of
           None \<Rightarrow> changeUserRole_delete env w5 (req_userEmail request)
                     (users w (toLowerCase (req_userEmail request))) currentUser = (out, w')
         | Some r \<Rightarrow> changeUserRole_update env w5 (req_userEmail request) r
                       (users w (toLowerCase (req_userEmail request))) currentUser
                       token spId adId = (out, w')"
    from phase req have "changeUserRole_update env w5 (req_userEmail request) SuperAdmin
        (users w (toLowerCase (req_userEmail request))) currentUser token spId adId = (out, w')"
      by simp
    from update_grants [OF this] none f show ?thesis
      by (auto simp add: onlyGrantsRemoved_def)
  qed
  from none permits added retry2_trace [of env _ _ _ _ SuperAdmin] show ?thesis
    by (simp add: roleIdMap_def roleIdOf_def)
qed

theorem superadmin_scope_is_undefined_witness:
  "policyPermits root \<lparr>req_userEmail = ''d@x.com'', req_newRole = Some SuperAdmin\<rparr> (Some dee) \<and>
   (\<exists>w'. changeUserRole env0 w0 \<lparr>req_userEmail = ''d@x.com'', req_newRole = Some SuperAdmin\<rparr>
            root =
          Some (Inr \<lparr>message = ROLE_CHANGED_SUCCESSFULLY, status = SUCCESS,
                     userEmail = ''d@x.com'', previousRole = Some Employee,
                     newRole = Some SuperAdmin, azureADUpdated = True,
                     rollbackRequired = False\<rparr>, w') \<and>
          filter (\<lambda>g. principalId g = ''oid-d'') (grants w') =
            [\<lparr>aid = ''new'', principalId = ''oid-d'', appRoleId = None\<rparr>])"
proof -
  let ?req = "\<lparr>req_userEmail = ''d@x.com'', req_newRole = Some SuperAdmin\<rparr>"
  let ?res = "\<lparr>message = ROLE_CHANGED_SUCCESSFULLY, status = SUCCESS,
                     userEmail = ''d@x.com'', previousRole = Some Employee,
                     newRole = Some SuperAdmin, azureADUpdated = True,
                     rollbackRequired = False\<rparr>"
  have "map_option (\<lambda>(out, w'). (out, filter (\<lambda>g. principalId g = ''oid-d'') (grants w')))
          (changeUserRole env0 w0 ?req root) =
        Some (Inr ?res, [\<lparr>aid = ''new'', principalId = ''oid-d'', appRoleId = None\<rparr>])"
    by code_simp
  then obtain w' where run: "changeUserRole env0 w0 ?req root = Some (Inr ?res, w')"
    and g: "filter (\<lambda>g. principalId g = ''oid-d'') (grants w') =
            [\<lparr>aid = ''new'', principalId = ''oid-d'', appRoleId = None\<rparr>]"
    by (cases "changeUserRole env0 w0 ?req root") auto
  from superadmin_scope_is_undefined [OF run] have
    "policyPermits root ?req (Some dee)"
    by (simp add: root_def dee_def)
  with run g show ?thesis by blast
qed

end
